theory Spec2Isabelle
  imports Main
begin

section \<open>JavaScript values\<close>

text \<open>
  Both source files keep their data in the browser's \<^verbatim>\<open>localStorage\<close>, as JSON texts, and
  the directory keeps its records and its runtimes in plain objects used as
  dictionaries. The embedding writes out what the platform does to the values that pass
  through: what \<^verbatim>\<open>JSON.stringify\<close> followed by \<^verbatim>\<open>JSON.parse\<close> returns, and what reading and
  writing a property of a plain object does. Console output is not modelled.
\<close>

text \<open>A \<^verbatim>\<open>Date\<close> holds a time value in milliseconds, or is the invalid date.\<close>

datatype js_date = Date int | InvalidDate

text \<open>
  The values a field of a message can hold: \<^verbatim>\<open>undefined\<close>, \<^verbatim>\<open>null\<close>, a boolean, a finite
  number (the integers stand for them), a number that is not finite (\<^verbatim>\<open>NaN\<close>, the
  infinities), a text, a \<^verbatim>\<open>Date\<close>, an array, and an object as the list of its own
  enumerable fields. Functions, symbols and objects with a \<^verbatim>\<open>toJSON\<close> of their own are not
  represented.
\<close>

datatype js_value =
    JUndefined
  | JNull
  | JBool bool
  | JNumber int
  | JNonFinite
  | JString string
  | JDate js_date
  | JArray "js_value list"
  | JObject "(string \<times> js_value) list"

text \<open>
  The platform's conversion between a time value and its text: \<^verbatim>\<open>Date.prototype.toISOString\<close>
  (which \<^verbatim>\<open>toJSON\<close> calls) and \<^verbatim>\<open>new Date(text)\<close>. They are arguments of the model.
\<close>

record platform =
  toISOString :: "int \<Rightarrow> string"
  new_Date :: "string \<Rightarrow> js_date"

text \<open>
  \<open>through_JSON\<close> is \<^verbatim>\<open>JSON.parse (JSON.stringify v)\<close> for a value \<open>v\<close> held in a field: a
  valid \<^verbatim>\<open>Date\<close> comes back as its ISO text, the invalid date and a number that is not
  finite as \<^verbatim>\<open>null\<close>; \<^verbatim>\<open>undefined\<close> becomes \<^verbatim>\<open>null\<close> in an array, and a field that holds it
  is left out of an object (reading the field then gives \<^verbatim>\<open>undefined\<close> again).
\<close>

primrec through_JSON :: "platform \<Rightarrow> js_value \<Rightarrow> js_value" where
  "through_JSON pf JUndefined = JUndefined"
| "through_JSON pf JNull = JNull"
| "through_JSON pf (JBool b) = JBool b"
| "through_JSON pf (JNumber n) = JNumber n"
| "through_JSON pf JNonFinite = JNull"
| "through_JSON pf (JString s) = JString s"
| "through_JSON pf (JDate d) =
     (case d of Date t \<Rightarrow> JString (toISOString pf t) | InvalidDate \<Rightarrow> JNull)"
| "through_JSON pf (JArray vs) =
     JArray (map (\<lambda>v. if v = JUndefined then JNull else v) (map (through_JSON pf) vs))"
| "through_JSON pf (JObject fs) =
     JObject (filter (\<lambda>kv. snd kv \<noteq> JUndefined) (map (map_prod id (through_JSON pf)) fs))"

definition fields_through_JSON ::
  "platform \<Rightarrow> (string \<times> js_value) list \<Rightarrow> (string \<times> js_value) list" where
  "fields_through_JSON pf fs =
     filter (\<lambda>kv. snd kv \<noteq> JUndefined) (map (map_prod id (through_JSON pf)) fs)"

text \<open>
  Plain JSON data: \<^verbatim>\<open>null\<close>, booleans, finite numbers, texts, and arrays and objects of
  plain data.
\<close>

primrec json_data :: "js_value \<Rightarrow> bool" where
  "json_data JUndefined = False"
| "json_data JNull = True"
| "json_data (JBool b) = True"
| "json_data (JNumber n) = True"
| "json_data JNonFinite = False"
| "json_data (JString s) = True"
| "json_data (JDate d) = False"
| "json_data (JArray vs) = list_all id (map json_data vs)"
| "json_data (JObject fs) = list_all snd (map (map_prod id json_data) fs)"

section \<open>The storage medium\<close>

text \<open>
  The directory uses four fixed keys of \<^verbatim>\<open>localStorage\<close>
  (\<^verbatim>\<open>assistant_mainThreadId\<close>, \<^verbatim>\<open>assistant_threadIds\<close>, \<^verbatim>\<open>assistant_archivedThreadIds\<close>,
  \<^verbatim>\<open>assistant_threadMetadata\<close>); a thread's history lives under
  \<^verbatim>\<open>assistant-thread-<id>-messages\<close>. The tenth character of a history key is a hyphen and
  that of a directory key an underscore, so the two families never meet, and the store is
  modelled as a record with one optional entry per directory key and a map for the
  history keys.

  A JSON text is represented by the value \<^verbatim>\<open>JSON.parse\<close> returns on it. Each directory
  key is taken to hold a value of the shape \<^verbatim>\<open>saveThreadsToLocalStorage\<close> writes (a text, a
  list of texts, an object of records whose fields are texts), or nothing; on these,
  \<^verbatim>\<open>JSON.parse (JSON.stringify v) = v\<close>.
\<close>

text \<open>
  A record of the directory is an object whose fields hold texts: \<^verbatim>\<open>threadId\<close>,
  \<^verbatim>\<open>status\<close> (\<^verbatim>\<open>"regular"\<close> or \<^verbatim>\<open>"archived"\<close>) and \<^verbatim>\<open>title\<close>, each of which may be missing,
  and whatever else a spread has copied into it.
\<close>

type_synonym thread_metadata = "string \<rightharpoonup> string"

text \<open>
  The type \<^verbatim>\<open>ThreadMessage\<close> is imported by the adapter and declared elsewhere. The adapter
  reads one field of it, \<^verbatim>\<open>createdAt\<close>, and spreads the others, which are kept here as the
  list of the message's other fields.
\<close>

record ThreadMessage =
  createdAt :: js_value
  otherFields :: "(string \<times> js_value) list"

record message_node =
  message :: ThreadMessage
  parentId :: "string option"

text \<open>\<^verbatim>\<open>headId?: string | null\<close>: absent, \<^verbatim>\<open>null\<close>, or an id.\<close>

datatype head_ref = HeadAbsent | HeadNull | Head string

record ExportedMessageRepository =
  messages :: "message_node list"
  headId :: head_ref

text \<open>
  What is stored under a history key: a text on which the body of \<^verbatim>\<open>load\<close>'s \<^verbatim>\<open>try\<close> throws
  (not JSON, or JSON without a \<^verbatim>\<open>messages\<close> array), or the parsed history.
\<close>

datatype stored_history = Unparseable | Json ExportedMessageRepository

record local_storage =
  assistant_mainThreadId :: "string option"
  assistant_threadIds :: "string list option"
  assistant_archivedThreadIds :: "string list option"
  assistant_threadMetadata :: "(string \<rightharpoonup> thread_metadata) option"
  thread_messages :: "string \<rightharpoonup> stored_history"

definition empty_storage :: local_storage where
  "empty_storage =
     \<lparr>assistant_mainThreadId = None, assistant_threadIds = None,
      assistant_archivedThreadIds = None, assistant_threadMetadata = None,
      thread_messages = Map.empty\<rparr>"

text \<open>
  The environment's side of a call that the source wraps in \<^verbatim>\<open>try\<close>: the medium accepts
  it, or an exception is thrown, which for a write at capacity is the
  \<^verbatim>\<open>DOMException\<close> named \<^verbatim>\<open>QuotaExceededError\<close>. The source handles these exceptions in the
  history adapter and around \<^verbatim>\<open>removeItem\<close> in \<^verbatim>\<open>delete\<close>; there the medium's answer is an
  argument of the model. The writes of the directory snapshot have no handler in the
  source, and the embedding takes the medium to accept them.
\<close>

datatype js_exception = QuotaExceededError | OtherException

datatype medium_response = Accepts | Throws js_exception

section \<open>Errors\<close>

text \<open>
  The source throws \<^verbatim>\<open>Error\<close> with a message. The constructors name the kinds of the
  specification's taxonomy:
  \<^item> \<open>InvalidOperation\<close>: "Cannot archive the main thread ...", "Cannot delete the main thread ...";
  \<^item> \<open>NotFound\<close>: "Thread ... not found ..." (the operation is the argument);
  \<^item> \<open>FatalInconsistency\<close>: "Cannot create runtime for thread ...: Missing metadata and not default thread.";
  \<^item> \<open>InvalidThreadId\<close>: "LocalStorageHistoryAdapter requires a valid threadId.";
  \<^item> \<open>StorageExhausted\<close>: the taxonomy's name for a write rejected for capacity; no
    \<^verbatim>\<open>throw\<close> of the source produces it.
\<close>

datatype error =
    InvalidOperation
  | NotFound string
  | FatalInconsistency
  | InvalidThreadId
  | StorageExhausted

section \<open>LocalStorageHistoryAdapter\<close>

definition HISTORY_STORAGE_KEY_PREFIX :: string where
  "HISTORY_STORAGE_KEY_PREFIX = ''assistant-thread-''"

definition HISTORY_STORAGE_KEY_SUFFIX :: string where
  "HISTORY_STORAGE_KEY_SUFFIX = ''-messages''"

record LocalStorageHistoryAdapter =
  adapter_threadId :: string
  storageKey :: string

text \<open>The constructor: the empty text is falsy, and then it throws.\<close>

definition new_LocalStorageHistoryAdapter :: "string \<Rightarrow> error + LocalStorageHistoryAdapter" where
  "new_LocalStorageHistoryAdapter tid =
     (if tid = [] then Inl InvalidThreadId
      else Inr \<lparr>adapter_threadId = tid,
                storageKey = HISTORY_STORAGE_KEY_PREFIX @ tid @ HISTORY_STORAGE_KEY_SUFFIX\<rparr>)"

text \<open>
  \<^verbatim>\<open>JSON.stringify\<close> serialises the whole of each message, \<^verbatim>\<open>createdAt\<close> and the other
  fields alike, and the parent id, which is a text or \<^verbatim>\<open>null\<close>, as it is.
\<close>

definition node_toJSON :: "platform \<Rightarrow> message_node \<Rightarrow> message_node" where
  "node_toJSON pf n =
     \<lparr>message =
        \<lparr>createdAt = through_JSON pf (createdAt (message n)),
         otherFields = fields_through_JSON pf (otherFields (message n))\<rparr>,
      parentId = parentId n\<rparr>"

definition JSON_stringify :: "platform \<Rightarrow> ExportedMessageRepository \<Rightarrow> stored_history" where
  "JSON_stringify pf dataToStore =
     Json \<lparr>messages = map (node_toJSON pf) (messages dataToStore), headId = headId dataToStore\<rparr>"

text \<open>\<^verbatim>\<open>localStorage.setItem\<close> under a history key, with the medium's answer.\<close>

definition setItem_messages ::
  "medium_response \<Rightarrow> string \<Rightarrow> stored_history \<Rightarrow> local_storage \<Rightarrow> js_exception + local_storage" where
  "setItem_messages resp key v st =
     (case resp of
        Throws e \<Rightarrow> Inl e
      | Accepts \<Rightarrow> Inr (st\<lparr>thread_messages := (thread_messages st)(key \<mapsto> v)\<rparr>))"



text \<open>
  The asynchronous methods return a promise; its settling is the first component
  (\<open>Inr\<close> resolved, \<open>Inl\<close> rejected) and the store afterwards the second.
  \<open>append_adapter\<close> and \<open>update_adapter\<close> are the methods \<^verbatim>\<open>append\<close> and \<^verbatim>\<open>update\<close>.
\<close>

definition append_adapter ::
  "LocalStorageHistoryAdapter \<Rightarrow> string option \<times> ThreadMessage \<Rightarrow> local_storage
     \<Rightarrow> (error + unit) \<times> local_storage" where
  "append_adapter a change st = (Inr (), st)"

definition update_adapter ::
  "LocalStorageHistoryAdapter \<Rightarrow> ThreadMessage \<Rightarrow> local_storage
     \<Rightarrow> (error + unit) \<times> local_storage" where
  "update_adapter a msg st = (Inr (), st)"

text \<open>
  \<^verbatim>\<open>saveFullHistory\<close>: without data it returns at once. With data, the \<^verbatim>\<open>try\<close> serialises
  and writes; the \<^verbatim>\<open>catch\<close> logs, with one more line for \<^verbatim>\<open>QuotaExceededError\<close>, and the
  method returns normally.
\<close>

definition saveFullHistory ::
  "platform \<Rightarrow> medium_response \<Rightarrow> LocalStorageHistoryAdapter \<Rightarrow> ExportedMessageRepository option
     \<Rightarrow> local_storage \<Rightarrow> (error + unit) \<times> local_storage" where
  "saveFullHistory pf resp a repositoryData st =
     (case repositoryData of
        None \<Rightarrow> (Inr (), st)
      | Some d \<Rightarrow>
          (case setItem_messages resp (storageKey a) (JSON_stringify pf d) st of
             Inr st' \<Rightarrow> (Inr (), st')
           | Inl e \<Rightarrow>
               (case e of
                  QuotaExceededError \<Rightarrow> (Inr (), st)
                | OtherException \<Rightarrow> (Inr (), st))))"

section \<open>Plain objects as dictionaries\<close>

text \<open>
  \<^verbatim>\<open>_threadMetadata\<close> and \<^verbatim>\<open>_threadRuntimeInstances\<close> are plain objects, read with
  \<^verbatim>\<open>obj[id]\<close> and tested for truthiness. A plain object inherits the properties of
  \<^verbatim>\<open>Object.prototype\<close>, so under one of these names a read finds something even when the
  object has no property of its own.
\<close>

definition Object_prototype_names :: "string list" where
  "Object_prototype_names =
     [''constructor'', ''__defineGetter__'', ''__defineSetter__'', ''hasOwnProperty'',
      ''__lookupGetter__'', ''__lookupSetter__'', ''isPrototypeOf'', ''propertyIsEnumerable'',
      ''toString'', ''valueOf'', ''__proto__'', ''toLocaleString'']"

text \<open>
  What a read of \<^verbatim>\<open>_threadMetadata\<close> can give: nothing; an object with the given enumerable
  fields (a record, or the object that has been made the dictionary's prototype); a
  built-in (a function of \<^verbatim>\<open>Object.prototype\<close>, or \<^verbatim>\<open>Object.prototype\<close> itself), which is
  an object without enumerable fields; or a text, inherited from a field of the
  prototype.
\<close>

datatype property_value = Undefined | Record thread_metadata | Builtin | Text string

fun truthy :: "property_value \<Rightarrow> bool" where
  "truthy Undefined = False"
| "truthy (Record r) = True"
| "truthy Builtin = True"
| "truthy (Text t) = (t \<noteq> [])"

text \<open>The decimal numeral of a number, as the name of an index.\<close>

fun decimal :: "nat \<Rightarrow> string" where
  "decimal n =
     (if n < 10 then [''0123456789'' ! n]
      else decimal (n div 10) @ [''0123456789'' ! (n mod 10)])"

text \<open>
  The fields that a spread \<^verbatim>\<open>{...v}\<close> copies: the own enumerable properties. A text has
  one for each of its characters, under the index.
\<close>

fun spread :: "property_value \<Rightarrow> thread_metadata" where
  "spread Undefined = Map.empty"
| "spread (Record r) = r"
| "spread Builtin = Map.empty"
| "spread (Text t) = map_of (zip (map decimal [0..<length t]) (map (\<lambda>c. [c]) t))"

text \<open>\<^verbatim>\<open>v.title\<close>: no built-in and no text has a property of this name.\<close>

fun title_of :: "property_value \<Rightarrow> string option" where
  "title_of (Record r) = r ''title''"
| "title_of v = None"

section \<open>LocalThreadListRuntimeCore\<close>

definition DEFAULT_THREAD_ID :: string where
  "DEFAULT_THREAD_ID = ''__DEFAULT_ID__''"

definition DEFAULT_THREAD_METADATA :: thread_metadata where
  "DEFAULT_THREAD_METADATA =
     [''threadId'' \<mapsto> DEFAULT_THREAD_ID, ''status'' \<mapsto> ''regular'', ''title'' \<mapsto> ''Default Thread'']"

text \<open>
  What \<^verbatim>\<open>_threadFactory\<close> returns is an object of the caller's; the embedding keeps its
  identity, the number of factory calls made before it, and the history adapter it was
  given. The factory is taken to return, and not to call the directory.
\<close>

record LocalThreadRuntimeCore =
  runtime_serial :: nat
  runtime_history :: LocalStorageHistoryAdapter

text \<open>
  What a read of \<^verbatim>\<open>_threadRuntimeInstances\<close> can give: nothing, a runtime stored there, or
  a built-in inherited from \<^verbatim>\<open>Object.prototype\<close>.
\<close>

datatype runtime_value = NoRuntime | Runtime LocalThreadRuntimeCore | InheritedProperty

text \<open>
  The private fields (\<^verbatim>\<open>this._mainThreadId\<close> is \<open>this_mainThreadId\<close>, and so on; the two
  dictionaries by their own properties), and with them: the prototype of
  \<^verbatim>\<open>_threadMetadata\<close> when an assignment to \<^verbatim>\<open>__proto__\<close> has replaced it (\<open>None\<close> is
  \<^verbatim>\<open>Object.prototype\<close>), the store, the number of calls of \<^verbatim>\<open>_notifySubscribers\<close> so far,
  and the thread ids \<^verbatim>\<open>_threadFactory\<close> has been called with, in order.
\<close>

record directory =
  this_mainThreadId :: string
  this_threadIds :: "string list"
  this_archivedThreadIds :: "string list"
  this_threadMetadata :: "string \<rightharpoonup> thread_metadata"
  threadMetadata_prototype :: "thread_metadata option"
  this_threadRuntimeInstances :: "string \<rightharpoonup> LocalThreadRuntimeCore"
  factoryCalls :: "string list"
  notifications :: nat
  localStorage :: local_storage

text \<open>
  \<^verbatim>\<open>this._threadMetadata[k]\<close>: the own property; else a field of the replaced prototype;
  else, under a name of \<^verbatim>\<open>Object.prototype\<close>, what is inherited from there, which for
  \<^verbatim>\<open>__proto__\<close> is the prototype itself.
\<close>

definition get_threadMetadata :: "directory \<Rightarrow> string \<Rightarrow> property_value" where
  "get_threadMetadata s k =
     (case this_threadMetadata s k of
        Some r \<Rightarrow> Record r
      | None \<Rightarrow>
          (case (case threadMetadata_prototype s of Some p \<Rightarrow> p k | None \<Rightarrow> None) of
             Some t \<Rightarrow> Text t
           | None \<Rightarrow>
               (if k = ''__proto__''
                then (case threadMetadata_prototype s of Some p \<Rightarrow> Record p | None \<Rightarrow> Builtin)
                else if k \<in> set Object_prototype_names then Builtin
                else Undefined)))"

text \<open>
  \<^verbatim>\<open>this._threadMetadata[k] = r\<close>: an own property is made or replaced, except that under
  \<^verbatim>\<open>__proto__\<close>, when neither the object nor its prototype has a field of that name, the
  setter of \<^verbatim>\<open>Object.prototype\<close> runs and \<open>r\<close> becomes the prototype.
\<close>

definition set_threadMetadata :: "string \<Rightarrow> thread_metadata \<Rightarrow> directory \<Rightarrow> directory" where
  "set_threadMetadata k r s =
     (if k = ''__proto__'' \<and> this_threadMetadata s k = None \<and>
         (case threadMetadata_prototype s of Some p \<Rightarrow> p k | None \<Rightarrow> None) = None
      then s\<lparr>threadMetadata_prototype := Some r\<rparr>
      else s\<lparr>this_threadMetadata := (this_threadMetadata s)(k \<mapsto> r)\<rparr>)"

text \<open>\<^verbatim>\<open>this._threadRuntimeInstances[k]\<close>; its prototype is never replaced.\<close>

definition get_threadRuntimeInstances :: "directory \<Rightarrow> string \<Rightarrow> runtime_value" where
  "get_threadRuntimeInstances s k =
     (case this_threadRuntimeInstances s k of
        Some rt \<Rightarrow> Runtime rt
      | None \<Rightarrow> if k \<in> set Object_prototype_names then InheritedProperty else NoRuntime)"

record loaded_threads =
  loaded_mainThreadId :: string
  loaded_threadIds :: "string list"
  loaded_archivedThreadIds :: "string list"
  loaded_threadMetadata :: "string \<rightharpoonup> thread_metadata"

text \<open>\<^verbatim>\<open>getItem(k) || d\<close>: a missing entry and the empty text both give the default.\<close>

definition loadThreadsFromLocalStorage :: "local_storage \<Rightarrow> loaded_threads" where
  "loadThreadsFromLocalStorage st =
     \<lparr>loaded_mainThreadId =
        (case assistant_mainThreadId st of
           None \<Rightarrow> ''__DEFAULT_ID__''
         | Some s \<Rightarrow> if s = [] then ''__DEFAULT_ID__'' else s),
      loaded_threadIds =
        (case assistant_threadIds st of None \<Rightarrow> [''__DEFAULT_ID__''] | Some ids \<Rightarrow> ids),
      loaded_archivedThreadIds =
        (case assistant_archivedThreadIds st of None \<Rightarrow> [] | Some ids \<Rightarrow> ids),
      loaded_threadMetadata =
        (case assistant_threadMetadata st of None \<Rightarrow> Map.empty | Some m \<Rightarrow> m)\<rparr>"

definition saveThreadsToLocalStorage ::
  "string \<Rightarrow> string list \<Rightarrow> string list \<Rightarrow> (string \<rightharpoonup> thread_metadata)
     \<Rightarrow> local_storage \<Rightarrow> local_storage" where
  "saveThreadsToLocalStorage main ids archived meta st =
     st\<lparr>assistant_mainThreadId := Some main,
        assistant_threadIds := Some ids,
        assistant_archivedThreadIds := Some archived,
        assistant_threadMetadata := Some meta\<rparr>"

text \<open>
  \<^verbatim>\<open>persistState\<close>: \<^verbatim>\<open>JSON.stringify\<close> writes the own properties of \<^verbatim>\<open>_threadMetadata\<close>, not
  what it inherits.
\<close>

definition persistState :: "directory \<Rightarrow> directory" where
  "persistState s =
     s\<lparr>localStorage :=
          saveThreadsToLocalStorage (this_mainThreadId s) (this_threadIds s) (this_archivedThreadIds s)
            (this_threadMetadata s) (localStorage s),
        notifications := Suc (notifications s)\<rparr>"

text \<open>\<^verbatim>\<open>xs.unshift(DEFAULT_THREAD_ID)\<close> under \<^verbatim>\<open>if (!xs.includes(DEFAULT_THREAD_ID))\<close>.\<close>

definition unshift_default :: "string list \<Rightarrow> string list" where
  "unshift_default ids = (if DEFAULT_THREAD_ID \<in> set ids then ids else DEFAULT_THREAD_ID # ids)"

text \<open>
  The constructor, on the store it finds. The spread of the loaded metadata copies its
  own properties into a new plain object. The factory and the base options are the
  caller's and are not read here.
\<close>

definition new_LocalThreadListRuntimeCore :: "local_storage \<Rightarrow> directory" where
  "new_LocalThreadListRuntimeCore st =
     (let initialState = loadThreadsFromLocalStorage st;
          s = \<lparr>this_mainThreadId = loaded_mainThreadId initialState,
               this_threadIds = loaded_threadIds initialState,
               this_archivedThreadIds = loaded_archivedThreadIds initialState,
               this_threadMetadata = loaded_threadMetadata initialState,
               threadMetadata_prototype = None,
               this_threadRuntimeInstances = Map.empty,
               factoryCalls = [],
               notifications = 0,
               localStorage = st\<rparr>
      in if \<not> truthy (get_threadMetadata s DEFAULT_THREAD_ID) \<and>
            DEFAULT_THREAD_ID \<notin> set (this_threadIds s)
         then persistState
                ((set_threadMetadata DEFAULT_THREAD_ID DEFAULT_THREAD_METADATA
                    (s\<lparr>this_threadIds := unshift_default (this_threadIds s)\<rparr>))
                 \<lparr>this_mainThreadId := DEFAULT_THREAD_ID\<rparr>)
         else if \<not> truthy (get_threadMetadata s (this_mainThreadId s))
         then persistState
                (if DEFAULT_THREAD_ID \<notin> set (this_threadIds s)
                 then set_threadMetadata DEFAULT_THREAD_ID DEFAULT_THREAD_METADATA
                        (s\<lparr>this_mainThreadId := DEFAULT_THREAD_ID,
                           this_threadIds := DEFAULT_THREAD_ID # this_threadIds s\<rparr>)
                 else s\<lparr>this_mainThreadId := DEFAULT_THREAD_ID\<rparr>)
         else s)"

text \<open>
  \<^verbatim>\<open>getOrCreateThreadRuntime\<close>. A truthy read of the cache is returned as it is, a runtime
  or not. On a miss with no metadata, the default id is given its metadata and the state
  is persisted; any other id is removed from both lists, the state is persisted, and the
  method throws. Then the history adapter is constructed (which throws on the empty id),
  the factory is called and its runtime stored; a miss is not under an inherited name, so
  the store makes an own property, which the final read returns.
\<close>

definition getOrCreateThreadRuntime ::
  "string \<Rightarrow> directory \<Rightarrow> (error + runtime_value) \<times> directory" where
  "getOrCreateThreadRuntime tid s =
     (if get_threadRuntimeInstances s tid \<noteq> NoRuntime
      then (Inr (get_threadRuntimeInstances s tid), s)
      else if \<not> truthy (get_threadMetadata s tid) \<and> tid \<noteq> DEFAULT_THREAD_ID
      then (Inl FatalInconsistency,
            persistState
              (s\<lparr>this_threadIds := filter (\<lambda>i. i \<noteq> tid) (this_threadIds s),
                 this_archivedThreadIds := filter (\<lambda>i. i \<noteq> tid) (this_archivedThreadIds s)\<rparr>))
      else
        (let s1 = (if \<not> truthy (get_threadMetadata s tid)
                   then persistState
                          ((set_threadMetadata DEFAULT_THREAD_ID DEFAULT_THREAD_METADATA s)
                           \<lparr>this_threadIds := unshift_default (this_threadIds s)\<rparr>)
                   else s)
         in case new_LocalStorageHistoryAdapter tid of
              Inl e \<Rightarrow> (Inl e, s1)
            | Inr a \<Rightarrow>
                (let rt = \<lparr>runtime_serial = length (factoryCalls s1), runtime_history = a\<rparr>
                 in (Inr (Runtime rt),
                     s1\<lparr>this_threadRuntimeInstances := (this_threadRuntimeInstances s1)(tid \<mapsto> rt),
                        factoryCalls := factoryCalls s1 @ [tid]\<rparr>))))"

definition getMainThreadRuntimeCore ::
  "directory \<Rightarrow> (error + runtime_value) \<times> directory" where
  "getMainThreadRuntimeCore s = getOrCreateThreadRuntime (this_mainThreadId s) s"

text \<open>
  The getter \<^verbatim>\<open>threadIds\<close>: the loop keeps the first occurrence of each id.
\<close>

fun uniqueIds :: "string list \<Rightarrow> string list \<Rightarrow> string list" where
  "uniqueIds acc [] = acc"
| "uniqueIds acc (i # finalIds) =
     uniqueIds (if i \<in> set acc then acc else acc @ [i]) finalIds"

definition threadIds :: "directory \<Rightarrow> string list" where
  "threadIds s =
     (let regularIds = filter (\<lambda>i. i \<notin> set (this_archivedThreadIds s) \<and> i \<noteq> this_mainThreadId s)
                         (this_threadIds s);
          finalIds = this_mainThreadId s # regularIds
      in uniqueIds [] finalIds)"

definition archivedThreadIds :: "directory \<Rightarrow> string list" where
  "archivedThreadIds s = this_archivedThreadIds s"

text \<open>The getter \<^verbatim>\<open>mainThreadId\<close>, with its repair.\<close>

definition mainThreadId :: "directory \<Rightarrow> string \<times> directory" where
  "mainThreadId s =
     (if \<not> truthy (get_threadMetadata s (this_mainThreadId s))
      then (let s1 = s\<lparr>this_mainThreadId := DEFAULT_THREAD_ID\<rparr>;
                s2 = (if \<not> truthy (get_threadMetadata s1 DEFAULT_THREAD_ID)
                      then set_threadMetadata DEFAULT_THREAD_ID DEFAULT_THREAD_METADATA s1
                      else s1);
                s3 = s2\<lparr>this_threadIds := unshift_default (this_threadIds s2)\<rparr>;
                s4 = s3\<lparr>this_archivedThreadIds :=
                          filter (\<lambda>i. i \<noteq> DEFAULT_THREAD_ID) (this_archivedThreadIds s3)\<rparr>;
                s5 = persistState s4
            in (this_mainThreadId s5, s5))
      else (this_mainThreadId s, s))"

definition getThreadRuntimeCore ::
  "string \<Rightarrow> directory \<Rightarrow> (error + runtime_value) \<times> directory" where
  "getThreadRuntimeCore tid s =
     (if \<not> truthy (get_threadMetadata s tid) then (Inl (NotFound ''getThreadRuntimeCore''), s)
      else getOrCreateThreadRuntime tid s)"

text \<open>\<^verbatim>\<open>getItemById\<close> returns the spread of what it reads (with no runtime), or nothing.\<close>

definition getItemById :: "string \<Rightarrow> directory \<Rightarrow> thread_metadata option" where
  "getItemById tid s =
     (if \<not> truthy (get_threadMetadata s tid) then None
      else Some (spread (get_threadMetadata s tid)))"

text \<open>
  The mutating methods are \<^verbatim>\<open>async\<close>: the first component of the result is the settling
  of the promise (\<open>Inl\<close> rejected with the error thrown), the second the object afterwards.
\<close>

definition rename :: "string \<Rightarrow> string \<Rightarrow> directory \<Rightarrow> (error + unit) \<times> directory" where
  "rename tid newTitle s =
     (if \<not> truthy (get_threadMetadata s tid) then (Inl (NotFound ''rename''), s)
      else (Inr (),
            persistState
              (set_threadMetadata tid ((spread (get_threadMetadata s tid))(''title'' \<mapsto> newTitle)) s)))"

definition archive :: "string \<Rightarrow> directory \<Rightarrow> (error + unit) \<times> directory" where
  "archive tid s =
     (if tid = this_mainThreadId s then (Inl InvalidOperation, s)
      else if \<not> truthy (get_threadMetadata s tid) then (Inl (NotFound ''archive''), s)
      else if tid \<in> set (this_archivedThreadIds s) then (Inr (), s)
      else (Inr (),
            persistState
              ((set_threadMetadata tid
                  ((spread (get_threadMetadata s tid))(''status'' \<mapsto> ''archived'')) s)
               \<lparr>this_threadIds := filter (\<lambda>i. i \<noteq> tid) (this_threadIds s),
                this_archivedThreadIds := this_archivedThreadIds s @ [tid]\<rparr>)))"

text \<open>
  \<^verbatim>\<open>indexOf\<close> finds the first occurrence and \<^verbatim>\<open>splice(index, 1)\<close> removes that one:
  \<open>remove1\<close>.
\<close>

definition unarchive :: "string \<Rightarrow> directory \<Rightarrow> (error + unit) \<times> directory" where
  "unarchive tid s =
     (if \<not> truthy (get_threadMetadata s tid) then (Inl (NotFound ''unarchive''), s)
      else if tid \<notin> set (this_archivedThreadIds s) then (Inr (), s)
      else (Inr (),
            persistState
              ((set_threadMetadata tid
                  ((spread (get_threadMetadata s tid))(''status'' \<mapsto> ''regular'')) s)
               \<lparr>this_archivedThreadIds := remove1 tid (this_archivedThreadIds s),
                this_threadIds :=
                  (if tid \<in> set (this_threadIds s) then this_threadIds s
                   else this_threadIds s @ [tid])\<rparr>)))"

text \<open>
  \<^verbatim>\<open>delete\<close> removes the own property of the id, if there is one, and the thread's
  history entry inside a \<^verbatim>\<open>try\<close>; an exception there is logged and the method goes on.
\<close>

definition removeItem_messages :: "string \<Rightarrow> local_storage \<Rightarrow> local_storage" where
  "removeItem_messages key st = st\<lparr>thread_messages := (thread_messages st)(key := None)\<rparr>"

definition delete ::
  "medium_response \<Rightarrow> string \<Rightarrow> directory \<Rightarrow> (error + unit) \<times> directory" where
  "delete resp tid s =
     (if tid = this_mainThreadId s then (Inl InvalidOperation, s)
      else if \<not> truthy (get_threadMetadata s tid) then (Inr (), s)
      else
        (let s1 = s\<lparr>this_threadMetadata := (this_threadMetadata s)(tid := None),
                    this_threadIds := filter (\<lambda>i. i \<noteq> tid) (this_threadIds s),
                    this_archivedThreadIds := filter (\<lambda>i. i \<noteq> tid) (this_archivedThreadIds s)\<rparr>;
             s2 = (case resp of
                     Accepts \<Rightarrow>
                       s1\<lparr>localStorage :=
                            removeItem_messages (''assistant-thread-'' @ tid @ ''-messages'')
                              (localStorage s1)\<rparr>
                   | Throws e \<Rightarrow> s1)
         in (Inr (), persistState s2)))"

record initialize_result =
  remoteId :: string
  externalId :: "string option"

definition initialize ::
  "string \<Rightarrow> directory \<Rightarrow> (error + initialize_result) \<times> directory" where
  "initialize tid s =
     (if truthy (get_threadMetadata s tid)
      then (Inr \<lparr>remoteId = tid, externalId = None\<rparr>, s)
      else (Inr \<lparr>remoteId = tid, externalId = None\<rparr>,
            persistState
              ((set_threadMetadata tid
                  [''threadId'' \<mapsto> tid, ''status'' \<mapsto> ''regular'', ''title'' \<mapsto> ''New Thread''] s)
               \<lparr>this_threadIds :=
                  (if tid \<in> set (this_threadIds s) then this_threadIds s
                   else this_threadIds s @ [tid]),
                this_archivedThreadIds := filter (\<lambda>i. i \<noteq> tid) (this_archivedThreadIds s)\<rparr>)))"

definition switchToThread :: "string \<Rightarrow> directory \<Rightarrow> (error + unit) \<times> directory" where
  "switchToThread tid s =
     (if this_mainThreadId s = tid then (Inr (), s)
      else if \<not> truthy (get_threadMetadata s tid) then (Inl (NotFound ''switchToThread''), s)
      else
        (case (if tid \<in> set (this_archivedThreadIds s) then unarchive tid s else (Inr (), s)) of
           (Inl e, s1) \<Rightarrow> (Inl e, s1)
         | (Inr u, s1) \<Rightarrow>
             (case getOrCreateThreadRuntime tid (s1\<lparr>this_mainThreadId := tid\<rparr>) of
                (Inl e, s2) \<Rightarrow> (Inl e, s2)
              | (Inr rt, s2) \<Rightarrow> (Inr (), persistState s2))))"

text \<open>
  \<^verbatim>\<open>switchToNewThread\<close> takes its id from \<^verbatim>\<open>generateId()\<close>, which is imported; the id
  generated is an argument here.
\<close>

definition switchToNewThread :: "string \<Rightarrow> directory \<Rightarrow> (error + unit) \<times> directory" where
  "switchToNewThread newThreadId s =
     (case initialize newThreadId s of
        (Inl e, s1) \<Rightarrow> (Inl e, s1)
      | (Inr r, s1) \<Rightarrow>
          (case getOrCreateThreadRuntime newThreadId (s1\<lparr>this_mainThreadId := newThreadId\<rparr>) of
             (Inl e, s2) \<Rightarrow> (Inl e, s2)
           | (Inr rt, s2) \<Rightarrow> (Inr (), persistState s2)))"

text \<open>
  \<^verbatim>\<open>threadId.substring(0, 5)\<close> is \<open>take 5\<close>; a missing title and the empty title are
  falsy.
\<close>

definition generateTitle :: "string \<Rightarrow> directory \<Rightarrow> (error + unit) \<times> directory" where
  "generateTitle tid s =
     (if \<not> truthy (get_threadMetadata s tid) then (Inl (NotFound ''generateTitle''), s)
      else
        (let currentTitle = title_of (get_threadMetadata s tid)
         in if currentTitle = None \<or> currentTitle = Some [] \<or> currentTitle = Some ''New Thread''
            then rename tid (''Thread '' @ take 5 tid) s
            else (Inr (), s)))"

section \<open>The public operations\<close>

text \<open>
  The calls a client can make on the directory, as data, so that statements about every
  operation can be written. \<open>call\<close> runs one and keeps whether it settled with an error.
  The id that \<^verbatim>\<open>generateId()\<close> returns is the argument of \<open>SwitchToNewThread\<close>, and the
  medium's answer to \<^verbatim>\<open>removeItem\<close> the first argument of \<open>Delete\<close>.
\<close>

datatype operation =
    MainThreadId
  | GetMainThreadRuntimeCore
  | GetThreadRuntimeCore string
  | SwitchToThread string
  | SwitchToNewThread string
  | Rename string string
  | Archive string
  | Unarchive string
  | Delete medium_response string
  | Initialize string
  | GenerateTitle string

definition settled :: "(error + 'a) \<times> 's \<Rightarrow> (error + unit) \<times> 's" where
  "settled p = (case p of (Inl e, s) \<Rightarrow> (Inl e, s) | (Inr v, s) \<Rightarrow> (Inr (), s))"

fun call :: "operation \<Rightarrow> directory \<Rightarrow> (error + unit) \<times> directory" where
  "call MainThreadId s = (Inr (), snd (mainThreadId s))"
| "call GetMainThreadRuntimeCore s = settled (getMainThreadRuntimeCore s)"
| "call (GetThreadRuntimeCore tid) s = settled (getThreadRuntimeCore tid s)"
| "call (SwitchToThread tid) s = switchToThread tid s"
| "call (SwitchToNewThread newThreadId) s = switchToNewThread newThreadId s"
| "call (Rename tid newTitle) s = rename tid newTitle s"
| "call (Archive tid) s = archive tid s"
| "call (Unarchive tid) s = unarchive tid s"
| "call (Delete resp tid) s = delete resp tid s"
| "call (Initialize tid) s = settled (initialize tid s)"
| "call (GenerateTitle tid) s = generateTitle tid s"

text \<open>The thread ids an operation is called with.\<close>

fun operation_ids :: "operation \<Rightarrow> string list" where
  "operation_ids MainThreadId = []"
| "operation_ids GetMainThreadRuntimeCore = []"
| "operation_ids (GetThreadRuntimeCore tid) = [tid]"
| "operation_ids (SwitchToThread tid) = [tid]"
| "operation_ids (SwitchToNewThread newThreadId) = [newThreadId]"
| "operation_ids (Rename tid newTitle) = [tid]"
| "operation_ids (Archive tid) = [tid]"
| "operation_ids (Unarchive tid) = [tid]"
| "operation_ids (Delete resp tid) = [tid]"
| "operation_ids (Initialize tid) = [tid]"
| "operation_ids (GenerateTitle tid) = [tid]"

text \<open>
  What \<^verbatim>\<open>getOrCreateThreadRuntime\<close> does to the object before it throws on an id without
  metadata: the id leaves both lists and the state is persisted.
\<close>

definition purge :: "string \<Rightarrow> directory \<Rightarrow> directory" where
  "purge tid s =
     persistState
       (s\<lparr>this_threadIds := filter (\<lambda>i. i \<noteq> tid) (this_threadIds s),
          this_archivedThreadIds := filter (\<lambda>i. i \<noteq> tid) (this_archivedThreadIds s)\<rparr>)"

text \<open>\<^verbatim>\<open>switchToThread\<close> called \<open>n\<close> times in a row, with the settlings in order.\<close>

fun switchToThread_repeated ::
  "nat \<Rightarrow> string \<Rightarrow> directory \<Rightarrow> (error + unit) list \<times> directory" where
  "switchToThread_repeated 0 tid s = ([], s)"
| "switchToThread_repeated (Suc n) tid s =
     (case switchToThread tid s of
        (r, s1) \<Rightarrow> (case switchToThread_repeated n tid s1 of (rs, s2) \<Rightarrow> (r # rs, s2)))"

section \<open>The specification's predicates\<close>

text \<open>
  The five invariants of the directory, in the specification's words: the main id has a
  record; it is not archived; the regular ids, the archived ids and the main id are exactly
  the ids with a record, and no id is both regular and archived; a record's status is
  archived exactly when its id is archived; the visible ordering is the main id followed
  by the regular ids without the main id and without repetitions (each at its first
  occurrence). A record is a property of \<^verbatim>\<open>_threadMetadata\<close> of its own.
\<close>

definition main_has_record :: "directory \<Rightarrow> bool" where
  "main_has_record s = (this_threadMetadata s (this_mainThreadId s) \<noteq> None)"

definition main_not_archived :: "directory \<Rightarrow> bool" where
  "main_not_archived s = (this_mainThreadId s \<notin> set (this_archivedThreadIds s))"

definition ids_partition_records :: "directory \<Rightarrow> bool" where
  "ids_partition_records s =
     (set (this_threadIds s) \<union> set (this_archivedThreadIds s) \<union> {this_mainThreadId s}
        = dom (this_threadMetadata s) \<and>
      set (this_threadIds s) \<inter> set (this_archivedThreadIds s) = {})"

definition status_matches_archived :: "directory \<Rightarrow> bool" where
  "status_matches_archived s =
     (\<forall>tid m. this_threadMetadata s tid = Some m
        \<longrightarrow> (m ''status'' = Some ''archived'') = (tid \<in> set (this_archivedThreadIds s)))"

definition deduplicated :: "'a list \<Rightarrow> 'a list" where
  "deduplicated xs = rev (remdups (rev xs))"

definition ordering_main_first :: "directory \<Rightarrow> bool" where
  "ordering_main_first s =
     (threadIds s =
        this_mainThreadId s #
          deduplicated (filter (\<lambda>i. i \<noteq> this_mainThreadId s) (this_threadIds s)))"

definition directory_invariants :: "directory \<Rightarrow> bool" where
  "directory_invariants s =
     (main_has_record s \<and> main_not_archived s \<and> ids_partition_records s \<and>
      status_matches_archived s \<and> ordering_main_first s)"

text \<open>
  The five invariants are not preserved as they stand: a main id that is not in the
  regular list loses its place among the listed ids when another thread becomes main, and
  \<^verbatim>\<open>unarchive\<close> removes one occurrence of an id from an archived list that may hold two.
  With the main id in the regular list and the archived list without repetition (the
  specification calls it a set) they are, as long as the dictionary of records has the
  prototype it was made with and the operations are called with ordinary ids.
\<close>

definition well_formed :: "directory \<Rightarrow> bool" where
  "well_formed s =
     (directory_invariants s \<and> this_mainThreadId s \<in> set (this_threadIds s) \<and>
      distinct (this_archivedThreadIds s))"

definition inductive_invariant :: "directory \<Rightarrow> bool" where
  "inductive_invariant s =
     (this_mainThreadId s \<in> set (this_threadIds s) \<and>
      dom (this_threadMetadata s) = set (this_threadIds s) \<union> set (this_archivedThreadIds s) \<and>
      set (this_threadIds s) \<inter> set (this_archivedThreadIds s) = {} \<and>
      distinct (this_archivedThreadIds s) \<and>
      status_matches_archived s)"

text \<open>An ordinary id is one that is not a name of \<^verbatim>\<open>Object.prototype\<close>.\<close>

definition ordinary_id :: "string \<Rightarrow> bool" where
  "ordinary_id k = (k \<notin> set Object_prototype_names)"

text \<open>
  The form of well-formedness that is proved to be kept, together with the original
  prototype of the dictionary of records.
\<close>

definition plain_invariant :: "directory \<Rightarrow> bool" where
  "plain_invariant s = (inductive_invariant s \<and> threadMetadata_prototype s = None)"

text \<open>
  The registry: the number of runtimes the factory has made for an id, and its agreement
  with the cache (none made for an id without an instance, one for an id with one).
\<close>

definition runtimes_created :: "string \<Rightarrow> directory \<Rightarrow> nat" where
  "runtimes_created tid s = count_list (factoryCalls s) tid"

definition registry_consistent_at :: "string \<Rightarrow> directory \<Rightarrow> bool" where
  "registry_consistent_at tid s =
     (runtimes_created tid s =
        (case this_threadRuntimeInstances s tid of None \<Rightarrow> 0 | Some rt \<Rightarrow> 1))"

definition registry_consistent :: "directory \<Rightarrow> bool" where
  "registry_consistent s = (\<forall>tid. registry_consistent_at tid s)"


section \<open>Concrete inputs\<close>

text \<open>
  The platform on three instants: the texts are those \<^verbatim>\<open>toISOString\<close> gives for 0, 1000 and
  2000 milliseconds after the epoch (every other instant is sent to the last text, so the
  function is only meant for these three).
\<close>

definition epoch_platform :: platform where
  "epoch_platform =
     \<lparr>toISOString = (\<lambda>t. if t = 0 then ''1970-01-01T00:00:00.000Z''
                          else if t = 1000 then ''1970-01-01T00:00:01.000Z''
                          else ''1970-01-01T00:00:02.000Z''),
      new_Date = (\<lambda>s. if s = ''1970-01-01T00:00:00.000Z'' then Date 0
                       else if s = ''1970-01-01T00:00:01.000Z'' then Date 1000
                       else if s = ''1970-01-01T00:00:02.000Z'' then Date 2000
                       else InvalidDate)\<rparr>"

text \<open>The tree of three nodes in a chain, with the head at the last.\<close>

definition three_node_tree :: ExportedMessageRepository where
  "three_node_tree =
     \<lparr>messages =
        [\<lparr>message = \<lparr>createdAt = JDate (Date 0),
                     otherFields = [(''id'', JString ''n1''), (''role'', JString ''user'')]\<rparr>,
          parentId = None\<rparr>,
         \<lparr>message = \<lparr>createdAt = JDate (Date 1000),
                     otherFields = [(''id'', JString ''n2''), (''role'', JString ''assistant'')]\<rparr>,
          parentId = Some ''n1''\<rparr>,
         \<lparr>message = \<lparr>createdAt = JDate (Date 2000),
                     otherFields = [(''id'', JString ''n3''), (''role'', JString ''user'')]\<rparr>,
          parentId = Some ''n2''\<rparr>],
      headId = Head ''n3''\<rparr>"



definition thread_a_adapter :: LocalStorageHistoryAdapter where
  "thread_a_adapter = \<lparr>adapter_threadId = ''a'', storageKey = ''assistant-thread-a-messages''\<rparr>"

text \<open>The directory of a process that starts on the empty store.\<close>

definition fresh_directory :: directory where
  "fresh_directory = new_LocalThreadListRuntimeCore empty_storage"

text \<open>A directory whose main id has no record and is not the default id.\<close>

definition ghost_main_directory :: directory where
  "ghost_main_directory =
     \<lparr>this_mainThreadId = ''ghost'',
      this_threadIds = [''__DEFAULT_ID__'', ''ghost''],
      this_archivedThreadIds = [],
      this_threadMetadata = [''__DEFAULT_ID__'' \<mapsto> DEFAULT_THREAD_METADATA],
      threadMetadata_prototype = None,
      this_threadRuntimeInstances = Map.empty,
      factoryCalls = [],
      notifications = 0,
      localStorage = empty_storage\<rparr>"

text \<open>A directory with two regular threads beside the default one.\<close>

definition two_thread_directory :: directory where
  "two_thread_directory =
     \<lparr>this_mainThreadId = ''__DEFAULT_ID__'',
      this_threadIds = [''__DEFAULT_ID__'', ''t1'', ''t2''],
      this_archivedThreadIds = [],
      this_threadMetadata =
        [''__DEFAULT_ID__'' \<mapsto> DEFAULT_THREAD_METADATA,
         ''t1'' \<mapsto> [''threadId'' \<mapsto> ''t1'', ''status'' \<mapsto> ''regular'', ''title'' \<mapsto> ''First''],
         ''t2'' \<mapsto> [''threadId'' \<mapsto> ''t2'', ''status'' \<mapsto> ''regular'', ''title'' \<mapsto> ''Second'']],
      threadMetadata_prototype = None,
      this_threadRuntimeInstances = Map.empty,
      factoryCalls = [],
      notifications = 0,
      localStorage = empty_storage\<rparr>"

text \<open>A directory with one archived thread beside the default one, and no runtime yet.\<close>

definition archived_t1_directory :: directory where
  "archived_t1_directory =
     \<lparr>this_mainThreadId = ''__DEFAULT_ID__'',
      this_threadIds = [''__DEFAULT_ID__''],
      this_archivedThreadIds = [''t1''],
      this_threadMetadata =
        [''__DEFAULT_ID__'' \<mapsto> DEFAULT_THREAD_METADATA,
         ''t1'' \<mapsto> [''threadId'' \<mapsto> ''t1'', ''status'' \<mapsto> ''archived'', ''title'' \<mapsto> ''New Thread'']],
      threadMetadata_prototype = None,
      this_threadRuntimeInstances = Map.empty,
      factoryCalls = [],
      notifications = 0,
      localStorage = empty_storage\<rparr>"

text \<open>
  Two stores as a process may find them: in the first the archived list holds the id
  \<open>a\<close> twice, in the second the main id \<open>a\<close> is in the archived list.
\<close>

definition twice_archived_storage :: local_storage where
  "twice_archived_storage =
     \<lparr>assistant_mainThreadId = Some ''__DEFAULT_ID__'',
      assistant_threadIds = Some [''__DEFAULT_ID__''],
      assistant_archivedThreadIds = Some [''a'', ''a''],
      assistant_threadMetadata =
        Some [''__DEFAULT_ID__'' \<mapsto> DEFAULT_THREAD_METADATA,
              ''a'' \<mapsto> [''threadId'' \<mapsto> ''a'', ''status'' \<mapsto> ''archived'', ''title'' \<mapsto> ''A'']],
      thread_messages = Map.empty\<rparr>"

definition main_archived_storage :: local_storage where
  "main_archived_storage =
     \<lparr>assistant_mainThreadId = Some ''a'',
      assistant_threadIds = Some [''__DEFAULT_ID__''],
      assistant_archivedThreadIds = Some [''a''],
      assistant_threadMetadata =
        Some [''__DEFAULT_ID__'' \<mapsto> DEFAULT_THREAD_METADATA,
              ''a'' \<mapsto> [''threadId'' \<mapsto> ''a'', ''status'' \<mapsto> ''archived'', ''title'' \<mapsto> ''A'']],
      thread_messages = Map.empty\<rparr>"

section \<open>The history adapter\<close>

text \<open>
  C10. \<^verbatim>\<open>append\<close>, \<^verbatim>\<open>update\<close> and \<^verbatim>\<open>saveFullHistory\<close> without repository data leave the
  store as it is, for every adapter, argument and store; \<^verbatim>\<open>saveFullHistory\<close> with data,
  on a medium that accepts the write, puts the serialised data under the adapter's key.
\<close>

theorem history_adapter_frame:
  "snd (append_adapter a change st) = st \<and> snd (update_adapter a msg st) = st \<and>
   saveFullHistory pf resp a None st = (Inr (), st) \<and>
   thread_messages (snd (saveFullHistory pf Accepts a (Some d) st)) (storageKey a)
     = Some (JSON_stringify pf d)"
  by (simp add: append_adapter_def update_adapter_def saveFullHistory_def setItem_messages_def)

text \<open>
  C2, as the code has it. When the medium throws on the write, for capacity or for any
  other reason, \<^verbatim>\<open>saveFullHistory\<close> settles normally and the store is as before: the
  caller is told nothing.
\<close>

theorem saveFullHistory_swallows_rejection:
  "saveFullHistory pf (Throws e) a d st = (Inr (), st)"
  by (cases d; cases e) (simp_all add: saveFullHistory_def setItem_messages_def)

text \<open>
  C2, as the claim states it, fails: with the medium at capacity the save of the
  three-node tree resolves, and its outcome is the one of any other failure of the write.
\<close>

theorem saveFullHistory_quota_counterexample:
  "saveFullHistory epoch_platform (Throws QuotaExceededError) thread_a_adapter
       (Some three_node_tree) empty_storage
     = (Inr (), empty_storage) \<and>
   saveFullHistory epoch_platform (Throws QuotaExceededError) thread_a_adapter
       (Some three_node_tree) empty_storage
     = saveFullHistory epoch_platform (Throws OtherException) thread_a_adapter
         (Some three_node_tree) empty_storage"
  by (simp add: saveFullHistory_def setItem_messages_def)



text \<open>
  Plain JSON data passes through JSON unchanged, so a message whose other fields are
  plain data meets the second condition of \<open>node_survives_JSON\<close>.
\<close>

lemma json_data_through_JSON: "json_data v \<Longrightarrow> through_JSON pf v = v"
proof (induction v)
  case (JArray vs)
  then have "\<forall>v \<in> set vs. through_JSON pf v = v \<and> v \<noteq> JUndefined"
    by (auto simp: list_all_iff)
  then have "map (\<lambda>v. if v = JUndefined then JNull else v) (map (through_JSON pf) vs) = vs"
    by (induction vs) auto
  then show ?case by simp
next
  case (JObject fs)
  then have "\<forall>kv \<in> set fs. through_JSON pf (snd kv) = snd kv \<and> snd kv \<noteq> JUndefined"
    by (fastforce simp: list_all_iff)
  then have "filter (\<lambda>kv. snd kv \<noteq> JUndefined) (map (map_prod id (through_JSON pf)) fs) = fs"
    by (induction fs) auto
  then show ?case by simp
qed simp_all

lemma json_data_fields_through_JSON:
  "list_all (\<lambda>kv. json_data (snd kv)) fs \<Longrightarrow> fields_through_JSON pf fs = fs"
  by (induction fs) (auto simp: fields_through_JSON_def json_data_through_JSON)




section \<open>The directory\<close>

subsection \<open>Reading and writing the dictionary of records\<close>

lemma get_own_record:
  "this_threadMetadata s k = Some r \<Longrightarrow> get_threadMetadata s k = Record r"
  by (simp add: get_threadMetadata_def)

lemma set_own_record:
  "this_threadMetadata s k = Some r'
     \<Longrightarrow> set_threadMetadata k r s = s\<lparr>this_threadMetadata := (this_threadMetadata s)(k \<mapsto> r)\<rparr>"
  by (simp add: set_threadMetadata_def)

lemma set_other_name:
  "k \<noteq> ''__proto__''
     \<Longrightarrow> set_threadMetadata k r s = s\<lparr>this_threadMetadata := (this_threadMetadata s)(k \<mapsto> r)\<rparr>"
  by (simp add: set_threadMetadata_def)

lemma proto_truthy: "truthy (get_threadMetadata s ''__proto__'') \<or>
    (\<exists>p. threadMetadata_prototype s = Some p \<and> p ''__proto__'' = Some [])"
  by (auto simp: get_threadMetadata_def split: option.splits)

lemma falsy_not_proto:
  "\<not> truthy (get_threadMetadata s k) \<Longrightarrow> this_threadMetadata s k = None"
  by (auto simp: get_threadMetadata_def split: option.splits)

text \<open>
  After an assignment of a spread of what was read, with one field set, the id reads
  truthy.
\<close>

lemma truthy_after_set:
  assumes "truthy (get_threadMetadata s k)" and "f \<noteq> ''__proto__''"
  shows "truthy (get_threadMetadata
                   (set_threadMetadata k ((spread (get_threadMetadata s k))(f \<mapsto> x)) s) k)"
  using assms
  by (auto simp: get_threadMetadata_def set_threadMetadata_def split: option.splits if_splits)

text \<open>
  C4. \<^verbatim>\<open>archive\<close> and \<^verbatim>\<open>delete\<close> on the main thread's id are rejected with
  \<open>InvalidOperation\<close>, in every state, and the whole object is as before: the four fields,
  the runtimes, the store (nothing was persisted) and the count of notifications.
\<close>

theorem archive_delete_main_rejected:
  "archive (this_mainThreadId s) s = (Inl InvalidOperation, s) \<and>
   delete resp (this_mainThreadId s) s = (Inl InvalidOperation, s)"
  by (simp add: archive_def delete_def)

lemma initialize_then_truthy:
  "truthy (get_threadMetadata (snd (initialize tid s)) tid)"
proof (cases "truthy (get_threadMetadata s tid)")
  case True
  then show ?thesis by (simp add: initialize_def)
next
  case False
  then have "tid \<noteq> ''__proto__'' \<or>
             (\<exists>p. threadMetadata_prototype s = Some p \<and> p ''__proto__'' = Some [])"
    using proto_truthy [of s] by auto
  with False show ?thesis
    by (auto simp: initialize_def persistState_def get_threadMetadata_def set_threadMetadata_def
        split: option.splits)
qed

text \<open>
  C5. \<^verbatim>\<open>initialize\<close> returns \<^verbatim>\<open>{remoteId: id, externalId: undefined}\<close>, and a second call
  right after the first returns the same and leaves the whole object as the first call
  left it.
\<close>

theorem initialize_idempotent:
  "fst (initialize tid s) = Inr \<lparr>remoteId = tid, externalId = None\<rparr> \<and>
   initialize tid (snd (initialize tid s)) =
     (Inr \<lparr>remoteId = tid, externalId = None\<rparr>, snd (initialize tid s))"
proof -
  have "fst (initialize tid s) = Inr \<lparr>remoteId = tid, externalId = None\<rparr>"
    by (simp add: initialize_def)
  moreover have "initialize tid (snd (initialize tid s)) =
     (Inr \<lparr>remoteId = tid, externalId = None\<rparr>, snd (initialize tid s))"
    using initialize_then_truthy [of tid s]
    by (subst initialize_def) simp
  ultimately show ?thesis by simp
qed

text \<open>
  C9. On the empty store the constructed directory answers: \<^verbatim>\<open>mainThreadId\<close> is the
  default id, \<^verbatim>\<open>threadIds\<close> is the list of the default id alone and \<^verbatim>\<open>archivedThreadIds\<close>
  is empty, whether the two lists are read before or after \<^verbatim>\<open>mainThreadId\<close>.
\<close>

theorem fresh_process_queries:
  "fst (mainThreadId (new_LocalThreadListRuntimeCore empty_storage)) = DEFAULT_THREAD_ID \<and>
   threadIds (new_LocalThreadListRuntimeCore empty_storage) = [DEFAULT_THREAD_ID] \<and>
   archivedThreadIds (new_LocalThreadListRuntimeCore empty_storage) = [] \<and>
   threadIds (snd (mainThreadId (new_LocalThreadListRuntimeCore empty_storage)))
     = [DEFAULT_THREAD_ID] \<and>
   archivedThreadIds (snd (mainThreadId (new_LocalThreadListRuntimeCore empty_storage))) = []"
  by (simp add: new_LocalThreadListRuntimeCore_def empty_storage_def
      loadThreadsFromLocalStorage_def DEFAULT_THREAD_ID_def persistState_def
      saveThreadsToLocalStorage_def Let_def mainThreadId_def threadIds_def
      archivedThreadIds_def unshift_default_def get_threadMetadata_def set_threadMetadata_def
      Object_prototype_names_def)

text \<open>
  C1 on the empty store. The constructor takes its second branch (the default id is in
  the list it loaded, so the first condition is false), persists and notifies, and the
  state it has committed has no record at all: the main id, the default one, has none,
  and the listed ids are not the ids with a record.
\<close>

theorem constructor_fresh_store_commit:
  "notifications (new_LocalThreadListRuntimeCore empty_storage) = 1 \<and>
   assistant_mainThreadId (localStorage (new_LocalThreadListRuntimeCore empty_storage))
     = Some DEFAULT_THREAD_ID \<and>
   assistant_threadIds (localStorage (new_LocalThreadListRuntimeCore empty_storage))
     = Some [DEFAULT_THREAD_ID] \<and>
   assistant_threadMetadata (localStorage (new_LocalThreadListRuntimeCore empty_storage))
     = Some Map.empty \<and>
   this_mainThreadId (new_LocalThreadListRuntimeCore empty_storage) = DEFAULT_THREAD_ID \<and>
   this_threadMetadata (new_LocalThreadListRuntimeCore empty_storage) = Map.empty \<and>
   \<not> main_has_record (new_LocalThreadListRuntimeCore empty_storage) \<and>
   \<not> ids_partition_records (new_LocalThreadListRuntimeCore empty_storage)"
  by (simp add: main_has_record_def ids_partition_records_def new_LocalThreadListRuntimeCore_def
      empty_storage_def loadThreadsFromLocalStorage_def DEFAULT_THREAD_ID_def persistState_def
      saveThreadsToLocalStorage_def Let_def get_threadMetadata_def Object_prototype_names_def)

text \<open>
  C6. For an id that is not the main one, has a record and is not in the archived list,
  \<^verbatim>\<open>archive\<close> and then \<^verbatim>\<open>unarchive\<close> both settle normally; afterwards the record is the
  original one with status \<^verbatim>\<open>"regular"\<close> (so the title is the original title), the id is
  the last of the regular list, after the other ids in their order, and the archived list
  is the original one.
\<close>

theorem archive_unarchive_round_trip:
  assumes "tid \<noteq> this_mainThreadId s"
    and "this_threadMetadata s tid = Some m"
    and "tid \<notin> set (this_archivedThreadIds s)"
    and "archive tid s = (r1, s1)"
    and "unarchive tid s1 = (r2, s2)"
  shows "r1 = Inr () \<and> r2 = Inr () \<and>
         this_threadMetadata s2 tid = Some (m(''status'' \<mapsto> ''regular'')) \<and>
         map_option (\<lambda>r. r ''status'') (this_threadMetadata s2 tid) = Some (Some ''regular'') \<and>
         map_option (\<lambda>r. r ''title'') (this_threadMetadata s2 tid) = Some (m ''title'') \<and>
         this_threadIds s2 = filter (\<lambda>i. i \<noteq> tid) (this_threadIds s) @ [tid] \<and>
         this_archivedThreadIds s2 = this_archivedThreadIds s"
proof -
  let ?m1 = "m(''status'' \<mapsto> ''archived'')"
  have s1: "r1 = Inr ()"
    "s1 = persistState
            (s\<lparr>this_threadMetadata := (this_threadMetadata s)(tid \<mapsto> ?m1),
               this_threadIds := filter (\<lambda>i. i \<noteq> tid) (this_threadIds s),
               this_archivedThreadIds := this_archivedThreadIds s @ [tid]\<rparr>)"
    using assms(1-4)
    by (auto simp: archive_def get_own_record set_own_record)
  have o1: "this_threadMetadata s1 tid = Some ?m1"
    by (simp add: s1 persistState_def)
  have a1: "tid \<in> set (this_archivedThreadIds s1)"
    by (simp add: s1 persistState_def)
  have s2: "r2 = Inr ()"
    "s2 = persistState
            (s1\<lparr>this_threadMetadata := (this_threadMetadata s1)(tid \<mapsto> ?m1(''status'' \<mapsto> ''regular'')),
                this_archivedThreadIds := remove1 tid (this_archivedThreadIds s1),
                this_threadIds :=
                  (if tid \<in> set (this_threadIds s1) then this_threadIds s1
                   else this_threadIds s1 @ [tid])\<rparr>)"
    using assms(5) a1 get_own_record [OF o1] set_own_record [OF o1]
    by (auto simp: unarchive_def)
  show ?thesis
    using assms(3)
    by (simp add: s1 s2 persistState_def remove1_append)
qed

text \<open>
  The round trip of \<open>t1\<close> in the directory of two threads: it was before \<open>t2\<close> and comes
  back after it.
\<close>

theorem archive_unarchive_round_trip_witness:
  "''t1'' \<noteq> this_mainThreadId two_thread_directory \<and>
   this_threadMetadata two_thread_directory ''t1''
     = Some [''threadId'' \<mapsto> ''t1'', ''status'' \<mapsto> ''regular'', ''title'' \<mapsto> ''First''] \<and>
   ''t1'' \<notin> set (this_archivedThreadIds two_thread_directory) \<and>
   fst (archive ''t1'' two_thread_directory) = Inr () \<and>
   this_threadIds (snd (archive ''t1'' two_thread_directory)) = [''__DEFAULT_ID__'', ''t2''] \<and>
   this_archivedThreadIds (snd (archive ''t1'' two_thread_directory)) = [''t1''] \<and>
   fst (unarchive ''t1'' (snd (archive ''t1'' two_thread_directory))) = Inr () \<and>
   map_option (\<lambda>r. r ''status'')
     (this_threadMetadata (snd (unarchive ''t1'' (snd (archive ''t1'' two_thread_directory)))) ''t1'')
     = Some (Some ''regular'') \<and>
   map_option (\<lambda>r. r ''title'')
     (this_threadMetadata (snd (unarchive ''t1'' (snd (archive ''t1'' two_thread_directory)))) ''t1'')
     = Some (Some ''First'') \<and>
   this_threadIds (snd (unarchive ''t1'' (snd (archive ''t1'' two_thread_directory))))
     = [''__DEFAULT_ID__'', ''t2'', ''t1''] \<and>
   this_archivedThreadIds (snd (unarchive ''t1'' (snd (archive ''t1'' two_thread_directory)))) = []"
proof -
  have h1: "''t1'' \<noteq> this_mainThreadId two_thread_directory"
    by (simp add: two_thread_directory_def)
  have h2: "this_threadMetadata two_thread_directory ''t1''
              = Some [''threadId'' \<mapsto> ''t1'', ''status'' \<mapsto> ''regular'', ''title'' \<mapsto> ''First'']"
    by (simp add: two_thread_directory_def)
  have h3: "''t1'' \<notin> set (this_archivedThreadIds two_thread_directory)"
    by (simp add: two_thread_directory_def)
  have a: "this_threadIds (snd (archive ''t1'' two_thread_directory)) = [''__DEFAULT_ID__'', ''t2''] \<and>
           this_archivedThreadIds (snd (archive ''t1'' two_thread_directory)) = [''t1'']"
    by (simp add: two_thread_directory_def archive_def persistState_def get_threadMetadata_def
        set_threadMetadata_def)
  have i: "this_threadIds two_thread_directory = [''__DEFAULT_ID__'', ''t1'', ''t2''] \<and>
           this_archivedThreadIds two_thread_directory = []"
    by (simp add: two_thread_directory_def)
  from archive_unarchive_round_trip [OF h1 h2 h3 surjective_pairing surjective_pairing] h1 h2 h3 a i
  show ?thesis by simp
qed

subsection \<open>Switching to an archived thread\<close>

lemma switchToThread_main: "this_mainThreadId s = tid \<Longrightarrow> switchToThread tid s = (Inr (), s)"
  by (simp add: switchToThread_def)

lemma switchToThread_repeated_main:
  "this_mainThreadId s = tid \<Longrightarrow> switchToThread_repeated n tid s = (replicate n (Inr ()), s)"
  by (induction n) (simp_all add: switchToThread_main)

lemma getOrCreate_Inr:
  assumes "getOrCreateThreadRuntime tid s = (Inr rt, s')"
    and "this_threadMetadata s tid \<noteq> None"
    and "tid \<notin> set Object_prototype_names"
    and "registry_consistent_at tid s"
  shows "this_mainThreadId s' = this_mainThreadId s \<and>
         this_archivedThreadIds s' = this_archivedThreadIds s \<and>
         (\<exists>c. rt = Runtime c \<and> this_threadRuntimeInstances s' tid = Some c) \<and>
         runtimes_created tid s' = 1"
  using assms
  by (auto simp: getOrCreateThreadRuntime_def get_threadRuntimeInstances_def
      get_threadMetadata_def registry_consistent_at_def runtimes_created_def
      Let_def split: option.splits if_splits sum.splits)

lemma unarchive_archived:
  assumes "this_threadMetadata s tid = Some m" "tid \<in> set (this_archivedThreadIds s)"
    "distinct (this_archivedThreadIds s)"
  shows "\<exists>s1. unarchive tid s = (Inr (), s1) \<and> tid \<notin> set (this_archivedThreadIds s1) \<and>
           this_threadMetadata s1 tid \<noteq> None \<and>
           this_threadRuntimeInstances s1 = this_threadRuntimeInstances s \<and>
           factoryCalls s1 = factoryCalls s"
  using assms
  by (simp add: unarchive_def persistState_def get_own_record set_own_record [of s tid m])

text \<open>
  C7, as the code has it. For an id that is not a name of \<^verbatim>\<open>Object.prototype\<close>, in a
  directory whose archived list holds no id twice and does not hold the main id, and
  whose registry agrees with the factory calls made for the id: when \<^verbatim>\<open>switchToThread\<close> on
  an archived id with a record settles normally, the id is no longer archived, it is the
  main id, the registry holds a runtime for it and the factory has made exactly one; and
  any number of further calls settle normally and leave the whole object as it is, so no
  second runtime is made.
\<close>

theorem switchToThread_archived:
  assumes "this_threadMetadata s tid = Some m"
    and "tid \<in> set (this_archivedThreadIds s)"
    and "tid \<notin> set Object_prototype_names"
    and "this_mainThreadId s \<notin> set (this_archivedThreadIds s)"
    and "distinct (this_archivedThreadIds s)"
    and "registry_consistent_at tid s"
    and "switchToThread tid s = (Inr u, s')"
  shows "tid \<notin> set (this_archivedThreadIds s') \<and>
         this_mainThreadId s' = tid \<and>
         this_threadRuntimeInstances s' tid \<noteq> None \<and>
         runtimes_created tid s' = 1 \<and>
         (\<forall>n. switchToThread_repeated n tid s' = (replicate n (Inr ()), s'))"
proof -
  from assms(2,4) have ne: "this_mainThreadId s \<noteq> tid" by auto
  from unarchive_archived [OF assms(1,2,5)] obtain s1 where
    u: "unarchive tid s = (Inr (), s1)" and
    s1: "tid \<notin> set (this_archivedThreadIds s1)" "this_threadMetadata s1 tid \<noteq> None"
      "this_threadRuntimeInstances s1 = this_threadRuntimeInstances s"
      "factoryCalls s1 = factoryCalls s"
    by blast
  let ?s1 = "s1\<lparr>this_mainThreadId := tid\<rparr>"
  from assms(7) ne assms(1,2) u obtain rt s2 where
    g: "getOrCreateThreadRuntime tid ?s1 = (Inr rt, s2)" and s': "s' = persistState s2"
    by (auto simp: switchToThread_def get_own_record split: prod.splits sum.splits)
  have c: "registry_consistent_at tid ?s1"
    using assms(6) s1 by (simp add: registry_consistent_at_def runtimes_created_def)
  from getOrCreate_Inr [OF g _ assms(3) c] s1 have
    r: "this_mainThreadId s2 = tid" "this_archivedThreadIds s2 = this_archivedThreadIds s1"
      "this_threadRuntimeInstances s2 tid \<noteq> None" "runtimes_created tid s2 = 1"
    by auto
  have m: "this_mainThreadId s' = tid"
    using r s' by (simp add: persistState_def)
  show ?thesis
    using r s1 s' m switchToThread_repeated_main [OF m]
    by (simp add: persistState_def runtimes_created_def)
qed

text \<open>
  The switch to the archived thread \<open>t1\<close>, and three more calls after it.
\<close>

theorem switchToThread_archived_witness:
  "this_threadMetadata archived_t1_directory ''t1''
     = Some [''threadId'' \<mapsto> ''t1'', ''status'' \<mapsto> ''archived'', ''title'' \<mapsto> ''New Thread''] \<and>
   ''t1'' \<in> set (this_archivedThreadIds archived_t1_directory) \<and>
   ''t1'' \<notin> set Object_prototype_names \<and>
   this_mainThreadId archived_t1_directory \<notin> set (this_archivedThreadIds archived_t1_directory) \<and>
   distinct (this_archivedThreadIds archived_t1_directory) \<and>
   registry_consistent_at ''t1'' archived_t1_directory \<and>
   fst (switchToThread ''t1'' archived_t1_directory) = Inr () \<and>
   this_archivedThreadIds (snd (switchToThread ''t1'' archived_t1_directory)) = [] \<and>
   this_mainThreadId (snd (switchToThread ''t1'' archived_t1_directory)) = ''t1'' \<and>
   runtimes_created ''t1'' (snd (switchToThread ''t1'' archived_t1_directory)) = 1 \<and>
   switchToThread_repeated 3 ''t1'' (snd (switchToThread ''t1'' archived_t1_directory))
     = ([Inr (), Inr (), Inr ()], snd (switchToThread ''t1'' archived_t1_directory))"
proof -
  have h1: "this_threadMetadata archived_t1_directory ''t1''
     = Some [''threadId'' \<mapsto> ''t1'', ''status'' \<mapsto> ''archived'', ''title'' \<mapsto> ''New Thread'']"
    by (simp add: archived_t1_directory_def)
  have h2: "''t1'' \<in> set (this_archivedThreadIds archived_t1_directory)"
    by (simp add: archived_t1_directory_def)
  have h0: "''t1'' \<notin> set Object_prototype_names"
    by (simp add: Object_prototype_names_def)
  have h3: "this_mainThreadId archived_t1_directory
              \<notin> set (this_archivedThreadIds archived_t1_directory)"
    by (simp add: archived_t1_directory_def)
  have h4: "distinct (this_archivedThreadIds archived_t1_directory)"
    by (simp add: archived_t1_directory_def)
  have h5: "registry_consistent_at ''t1'' archived_t1_directory"
    by (simp add: archived_t1_directory_def registry_consistent_at_def runtimes_created_def)
  have f: "fst (switchToThread ''t1'' archived_t1_directory) = Inr ()"
    by (simp add: archived_t1_directory_def switchToThread_def unarchive_def persistState_def
        getOrCreateThreadRuntime_def new_LocalStorageHistoryAdapter_def DEFAULT_THREAD_ID_def
        Let_def get_threadMetadata_def set_threadMetadata_def get_threadRuntimeInstances_def
        Object_prototype_names_def)
  have h6: "switchToThread ''t1'' archived_t1_directory
              = (Inr (), snd (switchToThread ''t1'' archived_t1_directory))"
    by (simp add: prod_eq_iff f)
  have a: "this_archivedThreadIds (snd (switchToThread ''t1'' archived_t1_directory)) = []"
    by (simp add: archived_t1_directory_def switchToThread_def unarchive_def persistState_def
        getOrCreateThreadRuntime_def new_LocalStorageHistoryAdapter_def DEFAULT_THREAD_ID_def
        Let_def get_threadMetadata_def set_threadMetadata_def get_threadRuntimeInstances_def
        Object_prototype_names_def)
  from switchToThread_archived [OF h1 h2 h0 h3 h4 h5 h6] h1 h2 h0 h3 h4 h5 f a
  show ?thesis
    by (simp add: numeral_3_eq_3)
qed

text \<open>
  C7, as the claim states it, fails in three ways. In the directory of two threads,
  \<^verbatim>\<open>archive\<close> of the id \<open>constructor\<close> finds the inherited function, writes a record and
  archives the id; \<^verbatim>\<open>switchToThread\<close> to it then completes and makes it the main id, but
  the read of the cache finds the inherited function again and no runtime is made. In a
  directory loaded from a store whose archived list holds \<open>a\<close> twice, the switch to \<open>a\<close>
  completes and \<open>a\<close> is still archived. In a directory loaded from a store whose main
  id \<open>a\<close> is archived, the switch to \<open>a\<close> returns at once and \<open>a\<close> is still archived.
\<close>

theorem switchToThread_archived_counterexample:
  "fst (archive ''constructor'' two_thread_directory) = Inr () \<and>
   this_threadMetadata (snd (archive ''constructor'' two_thread_directory)) ''constructor''
     = Some [''status'' \<mapsto> ''archived''] \<and>
   this_archivedThreadIds (snd (archive ''constructor'' two_thread_directory)) = [''constructor''] \<and>
   fst (switchToThread ''constructor'' (snd (archive ''constructor'' two_thread_directory)))
     = Inr () \<and>
   this_mainThreadId
     (snd (switchToThread ''constructor'' (snd (archive ''constructor'' two_thread_directory))))
     = ''constructor'' \<and>
   this_threadRuntimeInstances
     (snd (switchToThread ''constructor'' (snd (archive ''constructor'' two_thread_directory))))
     ''constructor'' = None \<and>
   runtimes_created ''constructor''
     (snd (switchToThread ''constructor'' (snd (archive ''constructor'' two_thread_directory))))
     = 0 \<and>
   this_threadMetadata (new_LocalThreadListRuntimeCore twice_archived_storage) ''a''
     = Some [''threadId'' \<mapsto> ''a'', ''status'' \<mapsto> ''archived'', ''title'' \<mapsto> ''A''] \<and>
   this_archivedThreadIds (new_LocalThreadListRuntimeCore twice_archived_storage) = [''a'', ''a''] \<and>
   fst (switchToThread ''a'' (new_LocalThreadListRuntimeCore twice_archived_storage)) = Inr () \<and>
   this_archivedThreadIds
     (snd (switchToThread ''a'' (new_LocalThreadListRuntimeCore twice_archived_storage))) = [''a''] \<and>
   this_threadMetadata (new_LocalThreadListRuntimeCore main_archived_storage) ''a''
     = Some [''threadId'' \<mapsto> ''a'', ''status'' \<mapsto> ''archived'', ''title'' \<mapsto> ''A''] \<and>
   this_archivedThreadIds (new_LocalThreadListRuntimeCore main_archived_storage) = [''a''] \<and>
   fst (switchToThread ''a'' (new_LocalThreadListRuntimeCore main_archived_storage)) = Inr () \<and>
   this_archivedThreadIds
     (snd (switchToThread ''a'' (new_LocalThreadListRuntimeCore main_archived_storage))) = [''a'']"
  by (simp add: two_thread_directory_def twice_archived_storage_def main_archived_storage_def
      new_LocalThreadListRuntimeCore_def loadThreadsFromLocalStorage_def
      archive_def switchToThread_def unarchive_def persistState_def
      getOrCreateThreadRuntime_def new_LocalStorageHistoryAdapter_def DEFAULT_THREAD_ID_def
      DEFAULT_THREAD_METADATA_def Let_def get_threadMetadata_def set_threadMetadata_def
      get_threadRuntimeInstances_def Object_prototype_names_def runtimes_created_def)

subsection \<open>Operations that end in an error\<close>

lemma get_threadMetadata_cong:
  assumes "this_threadMetadata s' = this_threadMetadata s"
    and "threadMetadata_prototype s' = threadMetadata_prototype s"
  shows "get_threadMetadata s' k = get_threadMetadata s k"
  unfolding get_threadMetadata_def assms by (rule refl)

lemma getOrCreate_Inl:
  assumes "getOrCreateThreadRuntime tid s = (Inl e, s')"
  shows "(e = FatalInconsistency \<and> \<not> truthy (get_threadMetadata s tid) \<and> s' = purge tid s) \<or>
         e = InvalidThreadId"
  using assms
  by (auto simp: getOrCreateThreadRuntime_def purge_def new_LocalStorageHistoryAdapter_def Let_def
      split: option.splits if_splits)

lemma unarchive_keeps_truthy:
  assumes "unarchive tid s = (r, s1)" and "truthy (get_threadMetadata s tid)"
  shows "r = Inr () \<and> truthy (get_threadMetadata s1 tid)"
proof (cases "tid \<in> set (this_archivedThreadIds s)")
  case False
  with assms show ?thesis by (auto simp: unarchive_def)
next
  case True
  let ?w = "set_threadMetadata tid ((spread (get_threadMetadata s tid))(''status'' \<mapsto> ''regular'')) s"
  have t: "truthy (get_threadMetadata ?w tid)"
    using truthy_after_set [OF assms(2), of "''status''" "''regular''"] by simp
  have "get_threadMetadata s1 tid = get_threadMetadata ?w tid"
    using assms True
    by (intro get_threadMetadata_cong) (auto simp: unarchive_def persistState_def)
  with t assms True show ?thesis by (auto simp: unarchive_def)
qed

lemma switchToThread_Inl:
  assumes "switchToThread tid s = (Inl e, s')" "e \<noteq> InvalidThreadId"
  shows "e \<noteq> FatalInconsistency \<and> s' = s"
proof (cases "this_mainThreadId s = tid \<or> \<not> truthy (get_threadMetadata s tid)")
  case True
  with assms show ?thesis by (auto simp: switchToThread_def split: if_splits)
next
  case False
  obtain r s1 where
    p: "(if tid \<in> set (this_archivedThreadIds s) then unarchive tid s else (Inr (), s)) = (r, s1)"
    by (cases "(if tid \<in> set (this_archivedThreadIds s) then unarchive tid s else (Inr (), s))")
  with False have r: "r = Inr ()" "truthy (get_threadMetadata s1 tid)"
    using unarchive_keeps_truthy [of tid s r s1] by (auto split: if_splits)
  from assms False p r obtain s2 where
    g: "getOrCreateThreadRuntime tid (s1\<lparr>this_mainThreadId := tid\<rparr>) = (Inl e, s2)"
    by (auto simp: switchToThread_def split: prod.splits sum.splits)
  have "get_threadMetadata (s1\<lparr>this_mainThreadId := tid\<rparr>) tid = get_threadMetadata s1 tid"
    by (rule get_threadMetadata_cong) simp_all
  with getOrCreate_Inl [OF g] r assms(2) show ?thesis by simp
qed

lemma switchToNewThread_Inl:
  assumes "switchToNewThread nid s = (Inl e, s')" "e \<noteq> InvalidThreadId"
  shows "False"
proof -
  obtain r s1 where i: "initialize nid s = (r, s1)"
    by (cases "initialize nid s")
  then have v: "\<exists>v. r = Inr v"
    by (auto simp: initialize_def split: if_splits)
  have m: "truthy (get_threadMetadata s1 nid)"
    using initialize_then_truthy [of nid s] i by simp
  from assms i v obtain s2 where
    g: "getOrCreateThreadRuntime nid (s1\<lparr>this_mainThreadId := nid\<rparr>) = (Inl e, s2)"
    by (auto simp: switchToNewThread_def split: prod.splits sum.splits)
  have "get_threadMetadata (s1\<lparr>this_mainThreadId := nid\<rparr>) nid = get_threadMetadata s1 nid"
    by (rule get_threadMetadata_cong) simp_all
  with getOrCreate_Inl [OF g] m assms(2) show ?thesis by simp
qed

text \<open>
  C3, as the code has it. A call on the directory that ends in \<open>NotFound\<close> or
  \<open>InvalidOperation\<close> leaves the whole object, store included, as it was. A call that
  ends in \<open>FatalInconsistency\<close> has removed the main id, which had no record, from both
  lists and persisted that, with a notification. (An error of the history adapter's
  constructor is left out of the statement.) The history adapter's save never ends in
  an error.
\<close>

theorem failed_call_effect:
  assumes "call op s = (Inl e, s')"
    and "e \<noteq> InvalidThreadId"
  shows "(if e = FatalInconsistency then s' = purge (this_mainThreadId s) s else s' = s) \<and>
         fst (saveFullHistory pf resp a d st) = Inr ()"
proof -
  have h: "fst (saveFullHistory pf resp a d st) = Inr ()"
    by (cases d; cases resp)
       (auto simp: saveFullHistory_def setItem_messages_def split: js_exception.splits)
  have "if e = FatalInconsistency then s' = purge (this_mainThreadId s) s else s' = s"
  proof (cases op)
    case MainThreadId
    with assms show ?thesis by simp
  next
    case GetMainThreadRuntimeCore
    with assms have "getOrCreateThreadRuntime (this_mainThreadId s) s = (Inl e, s')"
      by (auto simp: settled_def getMainThreadRuntimeCore_def split: prod.splits sum.splits)
    from getOrCreate_Inl [OF this] assms(2) show ?thesis by simp
  next
    case (GetThreadRuntimeCore tid)
    show ?thesis
    proof (cases "truthy (get_threadMetadata s tid)")
      case False
      with assms GetThreadRuntimeCore show ?thesis
        by (auto simp: settled_def getThreadRuntimeCore_def)
    next
      case True
      with assms GetThreadRuntimeCore have "getOrCreateThreadRuntime tid s = (Inl e, s')"
        by (auto simp: settled_def getThreadRuntimeCore_def split: prod.splits sum.splits)
      from getOrCreate_Inl [OF this] assms(2) True show ?thesis by simp
    qed
  next
    case (SwitchToThread tid)
    with assms switchToThread_Inl [of tid s e s'] show ?thesis by simp
  next
    case (SwitchToNewThread nid)
    with assms switchToNewThread_Inl [of nid s e s'] show ?thesis by simp
  next
    case (Rename tid t)
    with assms show ?thesis by (auto simp: rename_def split: if_splits)
  next
    case (Archive tid)
    with assms show ?thesis by (auto simp: archive_def split: if_splits)
  next
    case (Unarchive tid)
    with assms show ?thesis by (auto simp: unarchive_def split: if_splits)
  next
    case (Delete resp tid)
    with assms show ?thesis by (auto simp: delete_def Let_def split: if_splits)
  next
    case (Initialize tid)
    with assms show ?thesis by (auto simp: settled_def initialize_def split: if_splits)
  next
    case (GenerateTitle tid)
    with assms show ?thesis
      by (auto simp: generateTitle_def rename_def Let_def split: if_splits)
  qed
  with h show ?thesis by simp
qed

text \<open>
  Both kinds of failure: \<^verbatim>\<open>archive\<close> of the main thread in the fresh directory, which
  changes nothing, and the runtime of the main thread in the directory whose main id has
  no record, which purges the id.
\<close>

theorem failed_call_effect_witness:
  "call (Archive ''__DEFAULT_ID__'') fresh_directory = (Inl InvalidOperation, fresh_directory) \<and>
   InvalidOperation \<noteq> InvalidThreadId \<and>
   call GetMainThreadRuntimeCore ghost_main_directory
     = (Inl FatalInconsistency, purge ''ghost'' ghost_main_directory) \<and>
   FatalInconsistency \<noteq> InvalidThreadId \<and>
   fst (saveFullHistory epoch_platform (Throws QuotaExceededError) thread_a_adapter
          (Some three_node_tree) empty_storage) = Inr ()"
proof -
  have c: "call (Archive ''__DEFAULT_ID__'') fresh_directory
             = (Inl InvalidOperation, fresh_directory)"
    by (simp add: archive_def fresh_directory_def new_LocalThreadListRuntimeCore_def
        empty_storage_def loadThreadsFromLocalStorage_def DEFAULT_THREAD_ID_def persistState_def
        saveThreadsToLocalStorage_def Let_def get_threadMetadata_def Object_prototype_names_def)
  have n: "InvalidOperation \<noteq> InvalidThreadId" by simp
  have f: "fst (call GetMainThreadRuntimeCore ghost_main_directory) = Inl FatalInconsistency"
    by (simp add: settled_def getMainThreadRuntimeCore_def getOrCreateThreadRuntime_def
        ghost_main_directory_def DEFAULT_THREAD_ID_def get_threadMetadata_def
        get_threadRuntimeInstances_def Object_prototype_names_def)
  have g: "call GetMainThreadRuntimeCore ghost_main_directory
             = (Inl FatalInconsistency, snd (call GetMainThreadRuntimeCore ghost_main_directory))"
    by (simp only: prod_eq_iff f fst_conv snd_conv simp_thms)
  have m: "this_mainThreadId ghost_main_directory = ''ghost''"
    by (simp add: ghost_main_directory_def)
  have k: "FatalInconsistency \<noteq> InvalidThreadId" by simp
  have e2: "snd (call GetMainThreadRuntimeCore ghost_main_directory)
              = purge ''ghost'' ghost_main_directory"
    using failed_call_effect [OF g k, of epoch_platform "Throws QuotaExceededError" thread_a_adapter
            "Some three_node_tree" empty_storage] m
    by simp
  have e1: "call GetMainThreadRuntimeCore ghost_main_directory
              = (Inl FatalInconsistency, purge ''ghost'' ghost_main_directory)"
    using f e2 by (simp add: prod_eq_iff)
  from failed_call_effect [OF c n, of epoch_platform "Throws QuotaExceededError" thread_a_adapter
            "Some three_node_tree" empty_storage] c n e1 k
  show ?thesis by simp
qed

text \<open>
  C3, as the claim states it, fails. From the fresh directory, \<^verbatim>\<open>initialize\<close> accepts the
  empty id and \<^verbatim>\<open>switchToThread\<close> to it then ends in the adapter's error with the main id
  already changed in memory. And in the directory whose main id has no record,
  \<^verbatim>\<open>getMainThreadRuntimeCore\<close> ends in an error after it has changed the regular list in
  memory and in the store.
\<close>

theorem atomicity_counterexample:
  "fst (initialize [] fresh_directory) = Inr \<lparr>remoteId = [], externalId = None\<rparr> \<and>
   this_mainThreadId (snd (initialize [] fresh_directory)) = ''__DEFAULT_ID__'' \<and>
   fst (switchToThread [] (snd (initialize [] fresh_directory))) = Inl InvalidThreadId \<and>
   this_mainThreadId (snd (switchToThread [] (snd (initialize [] fresh_directory)))) = [] \<and>
   fst (getMainThreadRuntimeCore ghost_main_directory) = Inl FatalInconsistency \<and>
   this_threadIds ghost_main_directory = [''__DEFAULT_ID__'', ''ghost''] \<and>
   this_threadIds (snd (getMainThreadRuntimeCore ghost_main_directory)) = [''__DEFAULT_ID__''] \<and>
   assistant_threadIds (localStorage ghost_main_directory) = None \<and>
   assistant_threadIds (localStorage (snd (getMainThreadRuntimeCore ghost_main_directory)))
     = Some [''__DEFAULT_ID__'']"
  by (simp add: fresh_directory_def new_LocalThreadListRuntimeCore_def empty_storage_def
      loadThreadsFromLocalStorage_def DEFAULT_THREAD_ID_def persistState_def
      saveThreadsToLocalStorage_def Let_def initialize_def switchToThread_def
      getOrCreateThreadRuntime_def new_LocalStorageHistoryAdapter_def
      getMainThreadRuntimeCore_def ghost_main_directory_def get_threadMetadata_def
      set_threadMetadata_def get_threadRuntimeInstances_def Object_prototype_names_def)

section \<open>The invariants across operations\<close>

text \<open>
  The constructor's commit on the empty store breaks the first invariant; the other
  paths keep the invariants, for ordinary ids. The lemmas of this section show it: a
  well-formed directory whose dictionary of records has the prototype it was made with
  stays so under every call with ids that are not names of \<^verbatim>\<open>Object.prototype\<close> (for
  \<^verbatim>\<open>switchToNewThread\<close>, with an id that has no record yet, as a generated id is meant to
  be), and the fresh directory is well-formed once the getter \<^verbatim>\<open>mainThreadId\<close> has repaired
  it.
\<close>

subsection \<open>The visible ordering\<close>

lemma remdups_snoc:
  "remdups (xs @ [x]) = remdups (filter (\<lambda>y. y \<noteq> x) xs) @ [x]"
  by (induction xs) auto

lemma deduplicated_Cons:
  "deduplicated (x # xs) = x # deduplicated (filter (\<lambda>y. y \<noteq> x) xs)"
  by (simp add: deduplicated_def remdups_snoc rev_filter)

lemma uniqueIds_deduplicated:
  "uniqueIds acc xs = acc @ deduplicated (filter (\<lambda>x. x \<notin> set acc) xs)"
proof (induction xs arbitrary: acc)
  case Nil
  then show ?case by (simp add: deduplicated_def)
next
  case (Cons x xs)
  have f: "filter (\<lambda>y. y \<noteq> x \<and> y \<notin> set acc) xs = filter (\<lambda>y. y \<notin> set acc \<and> y \<noteq> x) xs"
    by (rule filter_cong) auto
  show ?case
    by (simp add: Cons deduplicated_Cons f)
qed

lemma partition_ordering:
  assumes "set (this_threadIds s) \<inter> set (this_archivedThreadIds s) = {}"
  shows "ordering_main_first s"
proof -
  have "filter (\<lambda>i. i \<noteq> this_mainThreadId s)
          (filter (\<lambda>i. i \<notin> set (this_archivedThreadIds s) \<and> i \<noteq> this_mainThreadId s)
             (this_threadIds s))
        = filter (\<lambda>i. i \<noteq> this_mainThreadId s) (this_threadIds s)"
    using assms by (auto intro!: filter_cong)
  then show ?thesis
    by (simp add: ordering_main_first_def threadIds_def Let_def uniqueIds_deduplicated
        deduplicated_Cons)
qed

subsection \<open>Well-formed directories\<close>

lemma well_formed_inductive: "well_formed s = inductive_invariant s"
proof
  assume w: "well_formed s"
  then have m: "this_mainThreadId s \<in> set (this_threadIds s)"
    by (simp add: well_formed_def)
  then have "set (this_threadIds s) \<union> set (this_archivedThreadIds s) \<union> {this_mainThreadId s}
               = set (this_threadIds s) \<union> set (this_archivedThreadIds s)"
    by blast
  with w show "inductive_invariant s"
    by (simp add: well_formed_def directory_invariants_def ids_partition_records_def
        inductive_invariant_def)
next
  assume c: "inductive_invariant s"
  then have m: "this_mainThreadId s \<in> set (this_threadIds s)"
    and d: "dom (this_threadMetadata s) = set (this_threadIds s) \<union> set (this_archivedThreadIds s)"
    and i: "set (this_threadIds s) \<inter> set (this_archivedThreadIds s) = {}"
    by (simp_all add: inductive_invariant_def)
  from m d have r: "main_has_record s"
    by (auto simp: main_has_record_def)
  from m i have a: "main_not_archived s"
    by (auto simp: main_not_archived_def)
  from m d i have p: "ids_partition_records s"
    by (auto simp: ids_partition_records_def)
  from c r a p partition_ordering [OF i] show "well_formed s"
    by (simp add: well_formed_def directory_invariants_def inductive_invariant_def)
qed

text \<open>
  With the original prototype, a read under an ordinary name finds the own property or
  nothing, and a write under an ordinary name makes an own property.
\<close>

lemma plain_get:
  assumes "threadMetadata_prototype s = None" and "ordinary_id k"
  shows "get_threadMetadata s k =
           (case this_threadMetadata s k of None \<Rightarrow> Undefined | Some r \<Rightarrow> Record r)"
proof -
  from assms(2) have "k \<noteq> ''__proto__''"
    by (auto simp: ordinary_id_def Object_prototype_names_def)
  with assms show ?thesis
    by (simp add: get_threadMetadata_def ordinary_id_def split: option.splits)
qed

lemma ordinary_set:
  "ordinary_id k
     \<Longrightarrow> set_threadMetadata k r s = s\<lparr>this_threadMetadata := (this_threadMetadata s)(k \<mapsto> r)\<rparr>"
  by (rule set_other_name) (auto simp: ordinary_id_def Object_prototype_names_def)

lemma ordinary_default: "ordinary_id DEFAULT_THREAD_ID"
  by (simp add: ordinary_id_def DEFAULT_THREAD_ID_def Object_prototype_names_def)

lemmas plain_defs = plain_invariant_def inductive_invariant_def status_matches_archived_def

lemma persistState_plain [simp]: "plain_invariant (persistState s) = plain_invariant s"
  by (simp add: plain_defs persistState_def)

lemma rename_plain:
  "plain_invariant s \<Longrightarrow> ordinary_id tid \<Longrightarrow> plain_invariant (snd (rename tid t s))"
  by (cases "this_threadMetadata s tid")
     (auto simp: rename_def plain_defs persistState_def plain_get ordinary_set)

lemma archive_plain:
  "plain_invariant s \<Longrightarrow> ordinary_id tid \<Longrightarrow> plain_invariant (snd (archive tid s))"
  by (cases "this_threadMetadata s tid")
     (auto simp: archive_def plain_defs persistState_def plain_get ordinary_set)

lemma unarchive_plain:
  "plain_invariant s \<Longrightarrow> ordinary_id tid \<Longrightarrow> plain_invariant (snd (unarchive tid s))"
  by (cases "this_threadMetadata s tid")
     (auto simp: unarchive_def plain_defs persistState_def plain_get ordinary_set)

lemma delete_plain:
  "plain_invariant s \<Longrightarrow> ordinary_id tid \<Longrightarrow> plain_invariant (snd (delete resp tid s))"
  by (cases "this_threadMetadata s tid"; cases resp)
     (auto simp: delete_def plain_defs persistState_def Let_def plain_get)

lemma initialize_plain:
  "plain_invariant s \<Longrightarrow> ordinary_id tid \<Longrightarrow> plain_invariant (snd (initialize tid s))"
  by (cases "this_threadMetadata s tid")
     (auto simp: initialize_def plain_defs persistState_def plain_get ordinary_set)

lemma main_truthy:
  "inductive_invariant s \<Longrightarrow> truthy (get_threadMetadata s (this_mainThreadId s))"
  by (auto simp: inductive_invariant_def get_threadMetadata_def split: option.splits)

lemma mainThreadId_plain: "plain_invariant s \<Longrightarrow> mainThreadId s = (this_mainThreadId s, s)"
  by (simp add: mainThreadId_def plain_invariant_def main_truthy)

lemma plain_main_update:
  assumes "plain_invariant s" "this_threadMetadata s tid \<noteq> None"
    "tid \<notin> set (this_archivedThreadIds s)"
  shows "plain_invariant (s\<lparr>this_mainThreadId := tid\<rparr>)"
  using assms by (auto simp: plain_defs)

lemma no_runtime_ordinary: "get_threadRuntimeInstances s tid = NoRuntime \<Longrightarrow> ordinary_id tid"
  by (auto simp: get_threadRuntimeInstances_def ordinary_id_def split: option.splits if_splits)

lemma plain_invariant_cong:
  assumes "this_mainThreadId s' = this_mainThreadId s" "this_threadIds s' = this_threadIds s"
    "this_archivedThreadIds s' = this_archivedThreadIds s"
    "this_threadMetadata s' = this_threadMetadata s"
    "threadMetadata_prototype s' = threadMetadata_prototype s"
  shows "plain_invariant s' = plain_invariant s"
  using assms by (simp add: plain_defs)

lemma purge_plain:
  assumes "plain_invariant s" "this_threadMetadata s tid = None"
  shows "plain_invariant
           (s\<lparr>this_threadIds := filter (\<lambda>i. i \<noteq> tid) (this_threadIds s),
              this_archivedThreadIds := filter (\<lambda>i. i \<noteq> tid) (this_archivedThreadIds s)\<rparr>)"
proof -
  from assms have "tid \<notin> set (this_threadIds s)" "tid \<notin> set (this_archivedThreadIds s)"
    by (auto simp: plain_defs)
  then have "filter (\<lambda>i. i \<noteq> tid) (this_threadIds s) = this_threadIds s"
    "filter (\<lambda>i. i \<noteq> tid) (this_archivedThreadIds s) = this_archivedThreadIds s"
    by (auto intro: filter_True)
  with assms(1) show ?thesis by simp
qed

lemma default_metadata_plain:
  assumes "plain_invariant s" "this_threadMetadata s DEFAULT_THREAD_ID = None"
  shows "plain_invariant
           ((set_threadMetadata DEFAULT_THREAD_ID DEFAULT_THREAD_METADATA s)
            \<lparr>this_threadIds := unshift_default (this_threadIds s)\<rparr>)"
  using assms
  by (auto simp: plain_defs ordinary_set [OF ordinary_default] unshift_default_def
      DEFAULT_THREAD_METADATA_def)

lemma getOrCreate_miss:
  assumes "get_threadRuntimeInstances s tid = NoRuntime"
    and "truthy (get_threadMetadata s tid) \<or> tid = DEFAULT_THREAD_ID"
    and "s1 = (if \<not> truthy (get_threadMetadata s tid)
               then persistState
                      ((set_threadMetadata DEFAULT_THREAD_ID DEFAULT_THREAD_METADATA s)
                       \<lparr>this_threadIds := unshift_default (this_threadIds s)\<rparr>)
               else s)"
  shows "snd (getOrCreateThreadRuntime tid s) = s1 \<or>
         (\<exists>x y. snd (getOrCreateThreadRuntime tid s)
                  = s1\<lparr>this_threadRuntimeInstances := x, factoryCalls := y\<rparr>)"
proof (cases "new_LocalStorageHistoryAdapter tid")
  case (Inl e)
  have "snd (getOrCreateThreadRuntime tid s) = s1"
    unfolding getOrCreateThreadRuntime_def assms(3) using assms(1,2) Inl
    by (cases "truthy (get_threadMetadata s tid)") (simp_all add: Let_def)
  then show ?thesis by simp
next
  case (Inr a)
  have "snd (getOrCreateThreadRuntime tid s)
          = s1\<lparr>this_threadRuntimeInstances :=
                  (this_threadRuntimeInstances s1)
                    (tid \<mapsto> \<lparr>runtime_serial = length (factoryCalls s1), runtime_history = a\<rparr>),
                factoryCalls := factoryCalls s1 @ [tid]\<rparr>"
    unfolding getOrCreateThreadRuntime_def assms(3) using assms(1,2) Inr
    by (cases "truthy (get_threadMetadata s tid)") (simp_all add: Let_def)
  then show ?thesis by blast
qed

lemma getOrCreate_plain:
  assumes "plain_invariant s"
  shows "plain_invariant (snd (getOrCreateThreadRuntime tid s))"
proof (cases "get_threadRuntimeInstances s tid = NoRuntime")
  case False
  with assms show ?thesis by (simp add: getOrCreateThreadRuntime_def)
next
  case True
  then have o: "ordinary_id tid" by (rule no_runtime_ordinary)
  from assms have p: "threadMetadata_prototype s = None" by (simp add: plain_invariant_def)
  define s1 where "s1 = (if \<not> truthy (get_threadMetadata s tid)
                   then persistState
                          ((set_threadMetadata DEFAULT_THREAD_ID DEFAULT_THREAD_METADATA s)
                           \<lparr>this_threadIds := unshift_default (this_threadIds s)\<rparr>)
                   else s)"
  have step: "plain_invariant s1 \<Longrightarrow> truthy (get_threadMetadata s tid) \<or> tid = DEFAULT_THREAD_ID
                \<Longrightarrow> ?thesis"
  proof -
    assume c1: "plain_invariant s1" and t: "truthy (get_threadMetadata s tid) \<or> tid = DEFAULT_THREAD_ID"
    from getOrCreate_miss [OF True t s1_def] show ?thesis
    proof
      assume "snd (getOrCreateThreadRuntime tid s) = s1"
      with c1 show ?thesis by simp
    next
      assume "\<exists>x y. snd (getOrCreateThreadRuntime tid s)
                     = s1\<lparr>this_threadRuntimeInstances := x, factoryCalls := y\<rparr>"
      then obtain x y where
        e: "snd (getOrCreateThreadRuntime tid s)
              = s1\<lparr>this_threadRuntimeInstances := x, factoryCalls := y\<rparr>"
        by blast
      have "plain_invariant (s1\<lparr>this_threadRuntimeInstances := x, factoryCalls := y\<rparr>)
              = plain_invariant s1"
        by (rule plain_invariant_cong) simp_all
      with c1 e show ?thesis by simp
    qed
  qed
  show ?thesis
  proof (cases "this_threadMetadata s tid")
    case None
    then have f: "\<not> truthy (get_threadMetadata s tid)"
      by (simp add: plain_get [OF p o])
    show ?thesis
    proof (cases "tid = DEFAULT_THREAD_ID")
      case False
      with True f purge_plain [OF assms None] show ?thesis
        by (simp add: getOrCreateThreadRuntime_def)
    next
      case d: True
      have c1: "plain_invariant s1"
        using f default_metadata_plain [OF assms] None d by (simp add: s1_def)
      from step [OF c1] d show ?thesis by simp
    qed
  next
    case (Some r)
    then have t: "truthy (get_threadMetadata s tid)"
      by (simp add: get_own_record)
    then have c1: "plain_invariant s1"
      using assms by (simp add: s1_def)
    from step [OF c1] t show ?thesis by simp
  qed
qed

lemma unarchive_result:
  assumes "plain_invariant s" "ordinary_id tid" "this_threadMetadata s tid \<noteq> None"
  shows "this_threadMetadata (snd (unarchive tid s)) tid \<noteq> None \<and>
         tid \<notin> set (this_archivedThreadIds (snd (unarchive tid s))) \<and>
         fst (unarchive tid s) = Inr ()"
  using assms
  by (cases "tid \<in> set (this_archivedThreadIds s)")
     (auto simp: unarchive_def plain_defs persistState_def plain_get ordinary_set)

lemma switchToThread_plain:
  assumes "plain_invariant s" "ordinary_id tid"
  shows "plain_invariant (snd (switchToThread tid s))"
proof (cases "this_mainThreadId s = tid \<or> this_threadMetadata s tid = None")
  case True
  with assms show ?thesis
    by (auto simp: switchToThread_def plain_get plain_invariant_def)
next
  case False
  from assms have t: "truthy (get_threadMetadata s tid)"
    using False by (auto simp: plain_get plain_invariant_def)
  define p where "p = (if tid \<in> set (this_archivedThreadIds s) then unarchive tid s else (Inr (), s))"
  have c1: "plain_invariant (snd p)"
    using assms unarchive_plain [OF assms, of] by (simp add: p_def)
  have r: "fst p = Inr ()" "this_threadMetadata (snd p) tid \<noteq> None"
    "tid \<notin> set (this_archivedThreadIds (snd p))"
    using False unarchive_result [OF assms] by (auto simp: p_def)
  have c2: "plain_invariant ((snd p)\<lparr>this_mainThreadId := tid\<rparr>)"
    using plain_main_update [OF c1 r(2,3)] .
  have sw: "switchToThread tid s =
          (case getOrCreateThreadRuntime tid ((snd p)\<lparr>this_mainThreadId := tid\<rparr>) of
             (Inl e, s2) \<Rightarrow> (Inl e, s2) | (Inr rt, s2) \<Rightarrow> (Inr (), persistState s2))"
    using False r(1) t by (cases p) (auto simp: switchToThread_def p_def [symmetric])
  show ?thesis
    using getOrCreate_plain [OF c2, of tid]
    by (auto simp: sw split: prod.splits sum.splits)
qed

lemma switchToNewThread_plain:
  assumes "plain_invariant s" "ordinary_id nid" "this_threadMetadata s nid = None"
  shows "plain_invariant (snd (switchToNewThread nid s))"
proof -
  define p where "p = initialize nid s"
  have c1: "plain_invariant (snd p)"
    using initialize_plain [OF assms(1,2)] by (simp add: p_def)
  have r: "\<exists>v. fst p = Inr v" "this_threadMetadata (snd p) nid \<noteq> None"
    "nid \<notin> set (this_archivedThreadIds (snd p))"
    using assms
    by (auto simp: p_def initialize_def persistState_def plain_get ordinary_set
        plain_invariant_def)
  have c2: "plain_invariant ((snd p)\<lparr>this_mainThreadId := nid\<rparr>)"
    using plain_main_update [OF c1 r(2,3)] .
  have sw: "switchToNewThread nid s =
          (case getOrCreateThreadRuntime nid ((snd p)\<lparr>this_mainThreadId := nid\<rparr>) of
             (Inl e, s2) \<Rightarrow> (Inl e, s2) | (Inr rt, s2) \<Rightarrow> (Inr (), persistState s2))"
    using r(1) by (cases p) (auto simp: switchToNewThread_def p_def [symmetric])
  show ?thesis
    using getOrCreate_plain [OF c2, of nid]
    by (auto simp: sw split: prod.splits sum.splits)
qed

lemma generateTitle_plain:
  "plain_invariant s \<Longrightarrow> ordinary_id tid \<Longrightarrow> plain_invariant (snd (generateTitle tid s))"
  using rename_plain [of s tid]
  by (auto simp: generateTitle_def Let_def)

lemma settled_snd [simp]: "snd (settled p) = snd p"
  by (auto simp: settled_def split: prod.splits sum.splits)

lemma call_preserves_well_formed:
  assumes "well_formed s" and "threadMetadata_prototype s = None"
    and "list_all ordinary_id (operation_ids op)"
    and "\<And>nid. op = SwitchToNewThread nid \<Longrightarrow> this_threadMetadata s nid = None"
  shows "well_formed (snd (call op s)) \<and> threadMetadata_prototype (snd (call op s)) = None"
proof -
  from assms(1,2) have c: "plain_invariant s"
    by (simp add: well_formed_inductive plain_invariant_def)
  have "plain_invariant (snd (call op s))"
  proof (cases op)
    case (SwitchToNewThread nid)
    with assms(3,4) c show ?thesis by (simp add: switchToNewThread_plain)
  next
    case (GetThreadRuntimeCore tid)
    with c getOrCreate_plain [OF c, of tid] show ?thesis
      by (simp add: getThreadRuntimeCore_def)
  qed (use c assms(3) in \<open>simp_all add: mainThreadId_plain getMainThreadRuntimeCore_def
        getOrCreate_plain switchToThread_plain rename_plain archive_plain
        unarchive_plain delete_plain initialize_plain generateTitle_plain\<close>)
  then show ?thesis by (simp add: well_formed_inductive plain_invariant_def)
qed

lemma fresh_repaired_well_formed:
  "well_formed (snd (mainThreadId (new_LocalThreadListRuntimeCore empty_storage))) \<and>
   threadMetadata_prototype (snd (mainThreadId (new_LocalThreadListRuntimeCore empty_storage)))
     = None"
  by (simp add: well_formed_inductive inductive_invariant_def status_matches_archived_def
      new_LocalThreadListRuntimeCore_def
      empty_storage_def loadThreadsFromLocalStorage_def DEFAULT_THREAD_ID_def persistState_def
      saveThreadsToLocalStorage_def Let_def mainThreadId_def unshift_default_def
      DEFAULT_THREAD_METADATA_def get_threadMetadata_def set_threadMetadata_def
      Object_prototype_names_def)

lemma well_formed_switch_preconditions:
  "well_formed s \<Longrightarrow>
     this_mainThreadId s \<notin> set (this_archivedThreadIds s) \<and> distinct (this_archivedThreadIds s)"
  by (simp add: well_formed_def directory_invariants_def main_not_archived_def)

subsection \<open>The registry\<close>

text \<open>
  The registry agrees with the factory calls in the directory the constructor makes,
  on any store, and after every call on it.
\<close>

lemma registry_consistent_cong:
  assumes "this_threadRuntimeInstances s' = this_threadRuntimeInstances s"
    and "factoryCalls s' = factoryCalls s"
  shows "registry_consistent s' = registry_consistent s"
  using assms by (simp add: registry_consistent_def registry_consistent_at_def runtimes_created_def)

lemma persistState_registry [simp]: "registry_consistent (persistState s) = registry_consistent s"
  by (rule registry_consistent_cong) (simp_all add: persistState_def)

lemma set_threadMetadata_registry [simp]:
  "registry_consistent (set_threadMetadata k r s) = registry_consistent s"
  by (rule registry_consistent_cong) (simp_all add: set_threadMetadata_def)

lemma getOrCreate_registry:
  assumes "registry_consistent s"
  shows "registry_consistent (snd (getOrCreateThreadRuntime tid s))"
proof -
  from assms have a: "\<And>t. registry_consistent_at t s"
    by (simp add: registry_consistent_def)
  have "registry_consistent_at t (snd (getOrCreateThreadRuntime tid s))" for t
    using a [of t] a [of tid]
    by (auto simp: getOrCreateThreadRuntime_def registry_consistent_at_def runtimes_created_def
        get_threadRuntimeInstances_def set_threadMetadata_def
        Let_def persistState_def split: option.splits sum.splits if_splits)
  then show ?thesis by (simp add: registry_consistent_def)
qed

lemma registry_main_update [simp]:
  "registry_consistent (s\<lparr>this_mainThreadId := tid\<rparr>) = registry_consistent s"
  by (rule registry_consistent_cong) simp_all

lemma rename_registry: "registry_consistent (snd (rename tid t s)) = registry_consistent s"
  by (rule registry_consistent_cong)
     (auto simp: rename_def persistState_def set_threadMetadata_def)

lemma archive_registry: "registry_consistent (snd (archive tid s)) = registry_consistent s"
  by (rule registry_consistent_cong)
     (auto simp: archive_def persistState_def set_threadMetadata_def)

lemma unarchive_registry: "registry_consistent (snd (unarchive tid s)) = registry_consistent s"
  by (rule registry_consistent_cong)
     (auto simp: unarchive_def persistState_def set_threadMetadata_def)

lemma delete_registry: "registry_consistent (snd (delete resp tid s)) = registry_consistent s"
  by (rule registry_consistent_cong)
     (auto simp: delete_def persistState_def Let_def split: medium_response.splits)

lemma initialize_registry: "registry_consistent (snd (initialize tid s)) = registry_consistent s"
  by (rule registry_consistent_cong)
     (auto simp: initialize_def persistState_def set_threadMetadata_def)

lemma mainThreadId_registry: "registry_consistent (snd (mainThreadId s)) = registry_consistent s"
  by (rule registry_consistent_cong)
     (auto simp: mainThreadId_def persistState_def Let_def set_threadMetadata_def)

lemma generateTitle_registry:
  "registry_consistent (snd (generateTitle tid s)) = registry_consistent s"
  by (rule registry_consistent_cong)
     (auto simp: generateTitle_def rename_def persistState_def Let_def set_threadMetadata_def)

lemma switchToThread_registry:
  assumes "registry_consistent s"
  shows "registry_consistent (snd (switchToThread tid s))"
proof -
  define p where "p = (if tid \<in> set (this_archivedThreadIds s) then unarchive tid s else (Inr (), s))"
  have c: "registry_consistent ((snd p)\<lparr>this_mainThreadId := tid\<rparr>)"
    using assms by (simp add: p_def unarchive_registry)
  show ?thesis
    using assms c getOrCreate_registry [OF c, of tid]
    by (cases p) (auto simp: switchToThread_def p_def [symmetric] split: prod.splits sum.splits)
qed

lemma switchToNewThread_registry:
  assumes "registry_consistent s"
  shows "registry_consistent (snd (switchToNewThread nid s))"
proof -
  define p where "p = initialize nid s"
  have c: "registry_consistent ((snd p)\<lparr>this_mainThreadId := nid\<rparr>)"
    using assms by (simp add: p_def initialize_registry)
  show ?thesis
    using assms c getOrCreate_registry [OF c, of nid]
    by (cases p) (auto simp: switchToNewThread_def p_def [symmetric] split: prod.splits sum.splits)
qed

lemma call_preserves_registry_consistent:
  assumes "registry_consistent s"
  shows "registry_consistent (snd (call op s))"
proof (cases op)
  case (GetThreadRuntimeCore tid)
  with assms getOrCreate_registry [OF assms, of tid] show ?thesis
    by (simp add: getThreadRuntimeCore_def)
qed (use assms in \<open>simp_all add: mainThreadId_registry getMainThreadRuntimeCore_def
      getOrCreate_registry switchToThread_registry switchToNewThread_registry rename_registry
      archive_registry unarchive_registry delete_registry initialize_registry
      generateTitle_registry\<close>)

lemma constructor_registry_consistent:
  "registry_consistent (new_LocalThreadListRuntimeCore st)"
proof -
  have "this_threadRuntimeInstances (new_LocalThreadListRuntimeCore st) = Map.empty \<and>
        factoryCalls (new_LocalThreadListRuntimeCore st) = []"
    by (simp add: new_LocalThreadListRuntimeCore_def Let_def persistState_def
        set_threadMetadata_def)
  then show ?thesis
    by (simp add: registry_consistent_def registry_consistent_at_def runtimes_created_def)
qed

end
